theory Spec2Isabelle
  imports Complex_Main
begin

section \<open>The Python/C interface to the sla routines (trm/sla/sla.cc)\<close>

text \<open>
  The module exports four operations: \<open>dtt\<close>, \<open>cldj\<close>, \<open>utc2tdb\<close> and \<open>amass\<close>.
  Each one reads its arguments, checks them, calls routines of the SLALIB library
  and returns a tuple of numbers or raises a Python \<open>ValueError\<close>.

  Numbers: a C \<open>double\<close> is idealised as a real number (no rounding, no NaN, no
  infinity), a C \<open>int\<close> holding a calendar field as an integer. A raised exception is
  the left summand of the result, the returned tuple the right one.
\<close>

subsection \<open>Errors and vectors\<close>

datatype pyerror = ValueError string

type_synonym vec3 = "real \<times> real \<times> real"

type_synonym mat3 = "vec3 \<times> vec3 \<times> vec3"

text \<open>
  Modelled from the spec: the header \<open>trm_vec3.h\<close> (class \<open>Subs::Vec3\<close>) is not
  among the sources. The spec describes it as 3-vectors ``with addition, scalar scale,
  dot product''; \<open>vec_add\<close> is \<open>operator+=\<close>, \<open>vec_scale\<close> is \<open>operator*=\<close> and
  \<open>dot\<close> is \<open>dot\<close>.
\<close>

definition vec_add :: "vec3 \<Rightarrow> vec3 \<Rightarrow> vec3" where
  "vec_add a b = (case a of (a1, a2, a3) \<Rightarrow> case b of (b1, b2, b3) \<Rightarrow>
     (a1 + b1, a2 + b2, a3 + b3))"

definition vec_scale :: "vec3 \<Rightarrow> real \<Rightarrow> vec3" where
  "vec_scale a k = (case a of (a1, a2, a3) \<Rightarrow> (a1 * k, a2 * k, a3 * k))"

definition dot :: "vec3 \<Rightarrow> vec3 \<Rightarrow> real" where
  "dot a b = (case a of (a1, a2, a3) \<Rightarrow> case b of (b1, b2, b3) \<Rightarrow>
     a1 * b1 + a2 * b2 + a3 * b3)"

subsection \<open>Constants\<close>

text \<open>
  Modelled from the spec: the header \<open>trm_constants.h\<close> (namespace \<open>Constants\<close>) is
  not among the sources. \<open>PI\<close> and \<open>TWOPI\<close> are the circle constants, \<open>DAY\<close> is the
  number of seconds in a day (the spec's ``days to seconds'' conversion) and \<open>C\<close> is
  the speed of light in metres per second. The astronomical unit \<open>AU\<close>, whose digits
  depend on the header, is a field of the record \<open>extern\<close> below.
\<close>

definition Constants_PI :: real where
  "Constants_PI = pi"

definition Constants_TWOPI :: real where
  "Constants_TWOPI = 2 * pi"

definition Constants_DAY :: real where
  "Constants_DAY = 86400"

definition Constants_C :: real where
  "Constants_C = 299792458"

subsection \<open>What the file takes from its headers\<close>

text \<open>
  The SLALIB routines (\<open>slalib.h\<close>), \<open>Subs::str\<close> and \<open>Constants::AU\<close> are used by
  the file and defined elsewhere. They are parameters of the model: every operation
  takes a record \<open>L\<close> of them, and a statement about every \<open>L\<close> holds whatever the
  library computes. A routine that writes through pointers returns the tuple of the
  values written. The last field is not a routine: it is what the platform's conversion
  of a double to \<open>int\<close> yields when the value does not fit an \<open>int\<close>, which C++ leaves
  undefined (see \<open>c_int\<close> below).
\<close>

record extern =
  Constants_AU :: real
  Subs_str :: "int \<Rightarrow> string"
  slaDtt :: "real \<Rightarrow> real"
  slaCldj :: "int \<Rightarrow> int \<Rightarrow> int \<Rightarrow> real \<times> int"
  slaGeoc :: "real \<Rightarrow> real \<Rightarrow> real \<times> real"
  slaRcc :: "real \<Rightarrow> real \<Rightarrow> real \<Rightarrow> real \<Rightarrow> real \<Rightarrow> real"
  slaEpv :: "real \<Rightarrow> vec3 \<times> vec3 \<times> vec3 \<times> vec3"
  slaGmst :: "real \<Rightarrow> real"
  slaEqeqx :: "real \<Rightarrow> real"
  slaPvobs :: "real \<Rightarrow> real \<Rightarrow> real \<Rightarrow> vec3 \<times> vec3"
  slaPneqx :: "real \<Rightarrow> mat3"
  slaDimxv :: "mat3 \<Rightarrow> vec3 \<Rightarrow> vec3"
  slaEpj :: "real \<Rightarrow> real"
  slaPm :: "real \<Rightarrow> real \<Rightarrow> real \<Rightarrow> real \<Rightarrow> real \<Rightarrow> real \<Rightarrow> real \<Rightarrow> real \<Rightarrow> real \<times> real"
  slaDcs2c :: "real \<Rightarrow> real \<Rightarrow> vec3"
  slaI2o :: "real \<Rightarrow> real \<Rightarrow> real \<Rightarrow> real \<Rightarrow> real \<Rightarrow> real \<Rightarrow> real \<Rightarrow> real \<Rightarrow> real \<Rightarrow>
             real \<Rightarrow> real \<Rightarrow> real \<Rightarrow> real \<Rightarrow> real \<Rightarrow> real \<times> real \<times> real \<times> real \<times> real"
  slaRefcoq :: "real \<Rightarrow> real \<Rightarrow> real \<Rightarrow> real \<Rightarrow> real \<times> real"
  slaAirmas :: "real \<Rightarrow> real"
  slaPa :: "real \<Rightarrow> real \<Rightarrow> real \<Rightarrow> real"
  int_unrepresentable :: "real \<Rightarrow> int"

subsection \<open>Arguments and results\<close>

text \<open>
  \<open>utc2tdb\<close> parses \<open>dddddd|ddddd\<close>: six doubles and up to five more, which keep
  their initial values \<open>pmra = 0\<close>, \<open>pmdec = 0\<close>, \<open>epoch = 2000\<close>, \<open>parallax = 0\<close>,
  \<open>rv = 0\<close> when left out. \<open>amass\<close> parses \<open>dddddd|dddddd\<close>, with \<open>wave = 0.55\<close> as
  the first optional argument. The records hold the variables after parsing; a call
  that \<open>PyArg_ParseTuple\<close> refuses (a wrong number or type of arguments) never
  reaches the code below and is outside the model.
\<close>

record utc2tdb_args =
  utc :: real
  longitude :: real
  latitude :: real
  height :: real
  ra :: real
  dec :: real
  pmra :: real
  pmdec :: real
  epoch :: real
  parallax :: real
  rv :: real

record amass_args = utc2tdb_args +
  wave :: real

record utc2tdb_result =
  tt :: real
  tdb :: real
  btdb :: real
  hutc :: real
  htdb :: real
  vhel :: real
  vbar :: real

record amass_result =
  airmass :: real
  alt :: real
  az :: real
  ha :: real
  pa :: real
  delz :: real

subsection \<open>The operations\<close>

definition sla_dtt :: "extern \<Rightarrow> real \<Rightarrow> real" where
  "sla_dtt L utc0 = slaDtt L utc0"

definition sla_cldj :: "extern \<Rightarrow> int \<Rightarrow> int \<Rightarrow> int \<Rightarrow> pyerror + real" where
  "sla_cldj L year month day =
     (case slaCldj L year month day of (mjd, status) \<Rightarrow>
        if status = 1 then Inl (ValueError (''sla.cldj: bad year = '' @ Subs_str L year))
        else if status = 2 then Inl (ValueError (''sla.cldj: bad month = '' @ Subs_str L month))
        else if status = 3 then Inl (ValueError (''sla.cldj: bad day = '' @ Subs_str L day))
        else Inr mjd)"

text \<open>
  \<open>int(utc)\<close>: the conversion of a double to \<open>int\<close> drops the fraction (rounds towards
  zero) when the result fits a 32-bit \<open>int\<close>, that is for \<open>-2\<^sup>3\<^sup>1 - 1 < x < 2\<^sup>3\<^sup>1\<close>. For any
  other value C++ leaves the conversion undefined; the model takes what it yields from
  the parameter \<open>int_unrepresentable\<close> (on x86-64 the conversion instruction gives
  \<open>-2\<^sup>3\<^sup>1\<close>), so that a statement about every \<open>L\<close> holds whatever value comes out. The
  argument \<open>utc\<close> is not range-checked, so such a value can be received.
\<close>

definition c_int :: "extern \<Rightarrow> real \<Rightarrow> int" where
  "c_int L x =
     (if - 2147483649 < x \<and> x < 2147483648 then (if 0 \<le> x then \<lfloor>x\<rfloor> else \<lceil>x\<rceil>)
      else int_unrepresentable L x)"

definition sla_utc2tdb :: "extern \<Rightarrow> utc2tdb_args \<Rightarrow> pyerror + utc2tdb_result" where
  "sla_utc2tdb L a =
    (if longitude a < - 360 \<or> longitude a > 360 then
       Inl (ValueError ''sla.utc2tdb: longituge out of range -360 to +360'')
     else if latitude a < - 90 \<or> latitude a > 90 then
       Inl (ValueError ''sla.utc2tdb: latitude out of range -90 to +90'')
     else if ra a < 0 \<or> ra a > 24 then
       Inl (ValueError ''sla.utc2tdb: ra out of range 0 to 24'')
     else if dec a < - 90 \<or> dec a > 90 then
       Inl (ValueError ''sla.utc2tdb: declination out of range -90 to +90'')
     else
       let CFAC = Constants_PI / 180;
           latr = CFAC * latitude a;
           longr = CFAC * longitude a;
           rar = CFAC * 15 * ra a;
           decr = CFAC * dec a;
           pmrar = CFAC * pmra a / 3600;
           pmdecr = CFAC * pmdec a / 3600;
           (u, v) = slaGeoc L latr (height a);
           u = u * (Constants_AU L / 1000);
           v = v * (Constants_AU L / 1000);
           tt = utc a + slaDtt L (utc a) / Constants_DAY;
           tdb = tt + slaRcc L tt (utc a - of_int (c_int L (utc a))) (- longr) u v / Constants_DAY;
           (ph, vh, pb, vb) = slaEpv L tdb;
           hpos = ph; bpos = pb; hvel = vh; bvel = vb;
           last = slaGmst L tdb + longr + slaEqeqx L tdb;
           (pv, pv3) = slaPvobs L latr (height a) last;
           rnpb = slaPneqx L tdb;
           pv = slaDimxv L rnpb pv;
           pv3 = slaDimxv L rnpb pv3;
           padd = pv; vadd = pv3;
           hpos = vec_add hpos padd;
           hvel = vec_add hvel vadd;
           hpos = vec_scale hpos (Constants_AU L);
           hvel = vec_scale hvel (Constants_AU L / Constants_DAY);
           bpos = vec_add bpos padd;
           bvel = vec_add bvel vadd;
           bpos = vec_scale bpos (Constants_AU L);
           bvel = vec_scale bvel (Constants_AU L / Constants_DAY);
           nepoch = slaEpj L (utc a);
           (rar, decr) = slaPm L rar decr pmrar pmdecr (parallax a) (rv a) (epoch a) nepoch;
           tv = slaDcs2c L rar decr;
           targ = tv;
           hcorr = dot targ hpos / Constants_C / Constants_DAY;
           bcorr = dot targ bpos / Constants_C / Constants_DAY;
           btdb = tdb + bcorr;
           htdb = tdb + hcorr;
           hutc = utc a + hcorr;
           vhel = - dot targ hvel / 1000;
           vbar = - dot targ bvel / 1000
       in Inr \<lparr>tt = tt, tdb = tdb, btdb = btdb, hutc = hutc, htdb = htdb,
                vhel = vhel, vbar = vbar\<rparr>)"

text \<open>
  The fifth check of \<open>amass\<close> is written \<open>wave <= 0. || dec > wave > 1000000.\<close> in
  the source. C++ reads \<open>dec > wave > 1000000.\<close> as \<open>(dec > wave) > 1000000.\<close>: the
  truth value of \<open>dec > wave\<close>, 0 or 1, is compared with a million.
\<close>

definition sla_amass :: "extern \<Rightarrow> amass_args \<Rightarrow> pyerror + amass_result" where
  "sla_amass L a =
    (if longitude a < - 360 \<or> longitude a > 360 then
       Inl (ValueError ''sla.amass: longituge out of range -360 to +360'')
     else if latitude a < - 90 \<or> latitude a > 90 then
       Inl (ValueError ''sla.amass: latitude out of range -90 to +90'')
     else if ra a < 0 \<or> ra a > 24 then
       Inl (ValueError ''sla.amass: ra out of range 0 to 24'')
     else if dec a < - 90 \<or> dec a > 90 then
       Inl (ValueError ''sla.amass: declination out of range -90 to +90'')
     else if wave a \<le> 0 \<or> (of_bool (dec a > wave a) :: real) > 1000000 then
       Inl (ValueError ''sla.amass: declination out of range -90 to +90'')
     else
       let CFAC = Constants_PI / 180;
           latr = CFAC * latitude a;
           longr = CFAC * longitude a;
           rar = CFAC * 15 * ra a;
           decr = CFAC * dec a;
           pmrar = CFAC * pmra a / 3600;
           pmdecr = CFAC * pmdec a / 3600;
           nepoch = slaEpj L (utc a);
           (rar, decr) = slaPm L rar decr pmrar pmdecr (parallax a) (rv a) (epoch a) nepoch;
           DUT = 0; XP = 0; YP = 0;
           T = 285; P = 1013.25; RH = 0.2; TLR = 0.0065;
           (azob, zdob, haob, decob, raob) =
              slaI2o L rar decr (utc a) DUT longr latr (height a) XP YP T P RH (wave a) TLR;
           (refa, refb) = slaRefcoq L T P RH (wave a);
           tanz = tan zdob;
           delz = tanz * (refa + refb * tanz * tanz) / CFAC;
           haob = haob * (24 / Constants_TWOPI);
           altob = 90 - zdob / CFAC;
           airmass = slaAirmas L zdob;
           azob = azob / CFAC;
           paob = slaPa L haob decr latr / CFAC;
           paob = (if paob > 0 then paob else 360 + paob)
       in Inr \<lparr>airmass = airmass, alt = altob, az = azob, ha = haob, pa = paob,
                delz = delz\<rparr>)"

subsection \<open>The operations with a log of the library calls\<close>

text \<open>
  To speak about the order of execution, the two operations are written once more with
  explicit state: the list \<open>tr\<close> of the library calls made so far, oldest first. Every
  statement of the source that calls a routine appends the call with its arguments
  (\<open>log_call\<close>); the checks and the arithmetic leave the list alone. The operation
  returns its result together with the final list. In line 117 the order of the calls
  \<open>slaGmst\<close> and \<open>slaEqeqx\<close> is not fixed by C++; they are logged as written.
\<close>

datatype call =
    Call_slaGeoc real real
  | Call_slaDtt real
  | Call_slaRcc real real real real real
  | Call_slaEpv real
  | Call_slaGmst real
  | Call_slaEqeqx real
  | Call_slaPvobs real real real
  | Call_slaPneqx real
  | Call_slaDimxv mat3 vec3
  | Call_slaEpj real
  | Call_slaPm real real real real real real real real
  | Call_slaDcs2c real real
  | Call_slaI2o real real real real real real real real real real real real real real
  | Call_slaRefcoq real real real real
  | Call_slaAirmas real
  | Call_slaPa real real real

definition log_call :: "call \<Rightarrow> 'a \<Rightarrow> call list \<Rightarrow> 'a \<times> call list" where
  \<comment> \<open>The value \<open>v\<close> that the call \<open>c\<close> returned, and the log with \<open>c\<close> appended.\<close>
  "log_call c v tr = (v, tr @ [c])"

definition sla_utc2tdb_run ::
  "extern \<Rightarrow> utc2tdb_args \<Rightarrow> (pyerror + utc2tdb_result) \<times> call list" where
  "sla_utc2tdb_run L a =
    (let tr = [] in
     if longitude a < - 360 \<or> longitude a > 360 then
       (Inl (ValueError ''sla.utc2tdb: longituge out of range -360 to +360''), tr)
     else if latitude a < - 90 \<or> latitude a > 90 then
       (Inl (ValueError ''sla.utc2tdb: latitude out of range -90 to +90''), tr)
     else if ra a < 0 \<or> ra a > 24 then
       (Inl (ValueError ''sla.utc2tdb: ra out of range 0 to 24''), tr)
     else if dec a < - 90 \<or> dec a > 90 then
       (Inl (ValueError ''sla.utc2tdb: declination out of range -90 to +90''), tr)
     else
       let CFAC = Constants_PI / 180;
           latr = CFAC * latitude a;
           longr = CFAC * longitude a;
           rar = CFAC * 15 * ra a;
           decr = CFAC * dec a;
           pmrar = CFAC * pmra a / 3600;
           pmdecr = CFAC * pmdec a / 3600;
           ((u, v), tr) = log_call (Call_slaGeoc latr (height a)) (slaGeoc L latr (height a)) tr;
           u = u * (Constants_AU L / 1000);
           v = v * (Constants_AU L / 1000);
           (dtt, tr) = log_call (Call_slaDtt (utc a)) (slaDtt L (utc a)) tr;
           tt = utc a + dtt / Constants_DAY;
           ut = utc a - of_int (c_int L (utc a));
           (rcc, tr) = log_call (Call_slaRcc tt ut (- longr) u v) (slaRcc L tt ut (- longr) u v) tr;
           tdb = tt + rcc / Constants_DAY;
           ((ph, vh, pb, vb), tr) = log_call (Call_slaEpv tdb) (slaEpv L tdb) tr;
           hpos = ph; bpos = pb; hvel = vh; bvel = vb;
           (gmst, tr) = log_call (Call_slaGmst tdb) (slaGmst L tdb) tr;
           (eqeqx, tr) = log_call (Call_slaEqeqx tdb) (slaEqeqx L tdb) tr;
           last = gmst + longr + eqeqx;
           ((pv, pv3), tr) =
              log_call (Call_slaPvobs latr (height a) last) (slaPvobs L latr (height a) last) tr;
           (rnpb, tr) = log_call (Call_slaPneqx tdb) (slaPneqx L tdb) tr;
           (pv, tr) = log_call (Call_slaDimxv rnpb pv) (slaDimxv L rnpb pv) tr;
           (pv3, tr) = log_call (Call_slaDimxv rnpb pv3) (slaDimxv L rnpb pv3) tr;
           padd = pv; vadd = pv3;
           hpos = vec_add hpos padd;
           hvel = vec_add hvel vadd;
           hpos = vec_scale hpos (Constants_AU L);
           hvel = vec_scale hvel (Constants_AU L / Constants_DAY);
           bpos = vec_add bpos padd;
           bvel = vec_add bvel vadd;
           bpos = vec_scale bpos (Constants_AU L);
           bvel = vec_scale bvel (Constants_AU L / Constants_DAY);
           (nepoch, tr) = log_call (Call_slaEpj (utc a)) (slaEpj L (utc a)) tr;
           ((rar, decr), tr) =
              log_call (Call_slaPm rar decr pmrar pmdecr (parallax a) (rv a) (epoch a) nepoch)
                (slaPm L rar decr pmrar pmdecr (parallax a) (rv a) (epoch a) nepoch) tr;
           (tv, tr) = log_call (Call_slaDcs2c rar decr) (slaDcs2c L rar decr) tr;
           targ = tv;
           hcorr = dot targ hpos / Constants_C / Constants_DAY;
           bcorr = dot targ bpos / Constants_C / Constants_DAY;
           btdb = tdb + bcorr;
           htdb = tdb + hcorr;
           hutc = utc a + hcorr;
           vhel = - dot targ hvel / 1000;
           vbar = - dot targ bvel / 1000
       in (Inr \<lparr>tt = tt, tdb = tdb, btdb = btdb, hutc = hutc, htdb = htdb,
                 vhel = vhel, vbar = vbar\<rparr>, tr))"

definition sla_amass_run ::
  "extern \<Rightarrow> amass_args \<Rightarrow> (pyerror + amass_result) \<times> call list" where
  "sla_amass_run L a =
    (let tr = [] in
     if longitude a < - 360 \<or> longitude a > 360 then
       (Inl (ValueError ''sla.amass: longituge out of range -360 to +360''), tr)
     else if latitude a < - 90 \<or> latitude a > 90 then
       (Inl (ValueError ''sla.amass: latitude out of range -90 to +90''), tr)
     else if ra a < 0 \<or> ra a > 24 then
       (Inl (ValueError ''sla.amass: ra out of range 0 to 24''), tr)
     else if dec a < - 90 \<or> dec a > 90 then
       (Inl (ValueError ''sla.amass: declination out of range -90 to +90''), tr)
     else if wave a \<le> 0 \<or> (of_bool (dec a > wave a) :: real) > 1000000 then
       (Inl (ValueError ''sla.amass: declination out of range -90 to +90''), tr)
     else
       let CFAC = Constants_PI / 180;
           latr = CFAC * latitude a;
           longr = CFAC * longitude a;
           rar = CFAC * 15 * ra a;
           decr = CFAC * dec a;
           pmrar = CFAC * pmra a / 3600;
           pmdecr = CFAC * pmdec a / 3600;
           (nepoch, tr) = log_call (Call_slaEpj (utc a)) (slaEpj L (utc a)) tr;
           ((rar, decr), tr) =
              log_call (Call_slaPm rar decr pmrar pmdecr (parallax a) (rv a) (epoch a) nepoch)
                (slaPm L rar decr pmrar pmdecr (parallax a) (rv a) (epoch a) nepoch) tr;
           DUT = 0; XP = 0; YP = 0;
           T = 285; P = 1013.25; RH = 0.2; TLR = 0.0065;
           ((azob, zdob, haob, decob, raob), tr) =
              log_call
                (Call_slaI2o rar decr (utc a) DUT longr latr (height a) XP YP T P RH (wave a) TLR)
                (slaI2o L rar decr (utc a) DUT longr latr (height a) XP YP T P RH (wave a) TLR)
                tr;
           ((refa, refb), tr) =
              log_call (Call_slaRefcoq T P RH (wave a)) (slaRefcoq L T P RH (wave a)) tr;
           tanz = tan zdob;
           delz = tanz * (refa + refb * tanz * tanz) / CFAC;
           haob = haob * (24 / Constants_TWOPI);
           altob = 90 - zdob / CFAC;
           (airmass, tr) = log_call (Call_slaAirmas zdob) (slaAirmas L zdob) tr;
           azob = azob / CFAC;
           (paob, tr) = log_call (Call_slaPa haob decr latr) (slaPa L haob decr latr) tr;
           paob = paob / CFAC;
           paob = (if paob > 0 then paob else 360 + paob)
       in (Inr \<lparr>airmass = airmass, alt = altob, az = azob, ha = haob, pa = paob,
                 delz = delz\<rparr>, tr))"

subsection \<open>Named parts of the two computations\<close>

text \<open>
  The intermediate quantities that the statements below speak about, each written from
  the lines of the source that compute it.
\<close>

definition target_place :: "extern \<Rightarrow> 'a utc2tdb_args_scheme \<Rightarrow> real \<times> real" where
  \<comment> \<open>\<open>(rar, decr)\<close> after \<open>slaPm\<close>: the target position in radians, moved to the
      epoch of observation (lines 93--99 and 144--145; 208--218 in \<open>amass\<close>).\<close>
  "target_place L a =
     slaPm L (pi / 180 * 15 * ra a) (pi / 180 * dec a) (pi / 180 * pmra a / 3600)
       (pi / 180 * pmdec a / 3600) (parallax a) (rv a) (epoch a) (slaEpj L (utc a))"

definition target_vector :: "extern \<Rightarrow> utc2tdb_args \<Rightarrow> vec3" where
  \<comment> \<open>\<open>targ\<close>, lines 148--150.\<close>
  "target_vector L a = (case target_place L a of (rar, decr) \<Rightarrow> slaDcs2c L rar decr)"

definition observatory_offset :: "extern \<Rightarrow> utc2tdb_args \<Rightarrow> real \<Rightarrow> vec3" where
  \<comment> \<open>\<open>padd\<close>: the observatory relative to the centre of the Earth at the time \<open>t\<close>,
      rotated by the precession-nutation matrix (lines 117--127).\<close>
  "observatory_offset L a t =
     slaDimxv L (slaPneqx L t)
       (fst (slaPvobs L (pi / 180 * latitude a) (height a)
          (slaGmst L t + pi / 180 * longitude a + slaEqeqx L t)))"

definition observatory_hpos :: "extern \<Rightarrow> utc2tdb_args \<Rightarrow> real \<Rightarrow> vec3" where
  \<comment> \<open>\<open>hpos\<close> after line 132: the observatory relative to the heliocentre, in metres.\<close>
  "observatory_hpos L a t =
     (case slaEpv L t of (ph, vh, pb, vb) \<Rightarrow>
        vec_scale (vec_add ph (observatory_offset L a t)) (Constants_AU L))"

definition observatory_bpos :: "extern \<Rightarrow> utc2tdb_args \<Rightarrow> real \<Rightarrow> vec3" where
  \<comment> \<open>\<open>bpos\<close> after line 138: the observatory relative to the barycentre, in metres.\<close>
  "observatory_bpos L a t =
     (case slaEpv L t of (ph, vh, pb, vb) \<Rightarrow>
        vec_scale (vec_add pb (observatory_offset L a t)) (Constants_AU L))"

definition observed_place_of :: "extern \<Rightarrow> amass_args \<Rightarrow> real \<times> real \<times> real \<times> real \<times> real" where
  \<comment> \<open>\<open>(azob, zdob, haob, decob, raob)\<close> as \<open>slaI2o\<close> writes them, all in radians
      (lines 229--232).\<close>
  "observed_place_of L a =
     (case target_place L a of (rar, decr) \<Rightarrow>
        slaI2o L rar decr (utc a) 0 (pi / 180 * longitude a) (pi / 180 * latitude a)
          (height a) 0 0 285 1013.25 0.2 (wave a) 0.0065)"

definition observed_zd :: "extern \<Rightarrow> amass_args \<Rightarrow> real" where
  "observed_zd L a = (case observed_place_of L a of (azob, zdob, haob, decob, raob) \<Rightarrow> zdob)"

definition observed_ha :: "extern \<Rightarrow> amass_args \<Rightarrow> real" where
  "observed_ha L a = (case observed_place_of L a of (azob, zdob, haob, decob, raob) \<Rightarrow> haob)"

definition normalise_pa :: "real \<Rightarrow> real" where
  \<comment> \<open>Line 248.\<close>
  "normalise_pa p = (if p > 0 then p else 360 + p)"

subsection \<open>A concrete library\<close>

text \<open>
  Modelled from the spec: SLALIB and \<open>Subs::str\<close> are not among the sources. To run the
  operations on explicit inputs, \<open>sla_ref\<close> gives each routine a real-number reading.
  The calendar routine, the epoch, the space-motion update, the direction cosines, the
  parallactic angle and the airmass follow the published SLALIB algorithms, which realise
  the spec's contracts for them (the calendar check with its three failures; ``rigorous
  spherical proper-motion'' with a vanishing term at zero parallax; the parallactic angle
  ``from hour angle, declination, and site latitude via spherical trigonometry''; the
  airmass polynomial). The leap-second history is the table of steps since 1972, the
  last offset held afterwards. The series-based routines are replaced by stand-ins that
  neglect the effect they compute: no precession-nutation (\<open>slaPneqx\<close>, \<open>slaEqeqx\<close>), no
  periodic TDB-TT term (\<open>slaRcc\<close>), a clock that turns once a day (\<open>slaGmst\<close>), a
  circular orbit of the Earth about a Sun at the barycentre (\<open>slaEpv\<close>), a refraction
  that scales with pressure over temperature (\<open>slaRefcoq\<close>) and the geometric place
  without refraction or aberration (\<open>slaI2o\<close>).
\<close>

definition atan2 :: "real \<Rightarrow> real \<Rightarrow> real" where
  \<comment> \<open>The C library's \<open>atan2(y, x)\<close>.\<close>
  "atan2 y x =
     (if 0 < x then arctan (y / x)
      else if x < 0 \<and> 0 \<le> y then arctan (y / x) + pi
      else if x < 0 then arctan (y / x) - pi
      else if 0 < y then pi / 2
      else if y < 0 then - (pi / 2)
      else 0)"

definition slaDranrm_ref :: "real \<Rightarrow> real" where
  "slaDranrm_ref x = x - 2 * pi * of_int \<lfloor>x / (2 * pi)\<rfloor>"

definition slaDcs2c_ref :: "real \<Rightarrow> real \<Rightarrow> vec3" where
  "slaDcs2c_ref x y = (cos x * cos y, sin x * cos y, sin y)"

definition slaDcc2s_ref :: "vec3 \<Rightarrow> real \<times> real" where
  "slaDcc2s_ref v = (case v of (x, y, z) \<Rightarrow>
     let r = sqrt (x * x + y * y)
     in (if r \<noteq> 0 then atan2 y x else 0, if z \<noteq> 0 then atan2 z r else 0))"

definition slaDimxv_ref :: "mat3 \<Rightarrow> vec3 \<Rightarrow> vec3" where
  \<comment> \<open>The product of the transposed (inverse rotation) matrix with the vector.\<close>
  "slaDimxv_ref m v = (case m of ((m11, m12, m13), (m21, m22, m23), (m31, m32, m33)) \<Rightarrow>
     case v of (v1, v2, v3) \<Rightarrow>
       (m11 * v1 + m21 * v2 + m31 * v3,
        m12 * v1 + m22 * v2 + m32 * v3,
        m13 * v1 + m23 * v2 + m33 * v3))"

definition slaEpj_ref :: "real \<Rightarrow> real" where
  "slaEpj_ref date = 2000 + (date - 51544.5) / 365.25"

definition slaPm_ref ::
  "real \<Rightarrow> real \<Rightarrow> real \<Rightarrow> real \<Rightarrow> real \<Rightarrow> real \<Rightarrow> real \<Rightarrow> real \<Rightarrow> real \<times> real" where
  "slaPm_ref r0 d0 pr pd px rv0 ep0 ep1 =
     (let vfr = (365.25 * 86400 / 149597870) * (pi / 648000);
          (p1, p2, p3) = slaDcs2c_ref r0 d0;
          w = vfr * rv0 * px;
          em1 = - pr * p2 - pd * cos r0 * sin d0 + w * p1;
          em2 = pr * p1 - pd * sin r0 * sin d0 + w * p2;
          em3 = pd * cos d0 + w * p3;
          t = ep1 - ep0;
          (r1, d1) = slaDcc2s_ref (p1 + t * em1, p2 + t * em2, p3 + t * em3)
      in (slaDranrm_ref r1, d1))"

definition slaPa_ref :: "real \<Rightarrow> real \<Rightarrow> real \<Rightarrow> real" where
  "slaPa_ref h d phi =
     (let cp = cos phi;
          sqsz = cp * sin h;
          cqsz = sin phi * cos d - cp * sin d * cos h
      in if sqsz = 0 \<and> cqsz = 0 then 0 else atan2 sqsz cqsz)"

definition slaAirmas_ref :: "real \<Rightarrow> real" where
  "slaAirmas_ref zd =
     (let seczm1 = 1 / cos (min 1.52 \<bar>zd\<bar>) - 1
      in 1 + seczm1 * (0.9981833 - seczm1 * (0.002875 + 0.0008083 * seczm1)))"

definition month_length :: "int \<Rightarrow> int \<Rightarrow> int" where
  "month_length iy im =
     (if im = 2 then
        (if iy mod 4 = 0 \<and> (iy mod 400 = 0 \<or> iy mod 100 \<noteq> 0) then 29 else 28)
      else if im = 4 \<or> im = 6 \<or> im = 9 \<or> im = 11 then 30
      else 31)"

definition slaCldj_ref :: "int \<Rightarrow> int \<Rightarrow> int \<Rightarrow> real \<times> int" where
  \<comment> \<open>Status 1: bad year (before -4711), 2: bad month, 3: bad day, 0: a date.\<close>
  "slaCldj_ref iy im iday =
     (if iy < - 4711 then (0, 1)
      else if im < 1 \<or> im > 12 then (0, 2)
      else
        (of_int ((1461 * (iy - (12 - im) div 10 + 4712)) div 4
                 + (306 * ((im + 9) mod 12) + 5) div 10
                 - (3 * ((iy - (12 - im) div 10 + 4900) div 100)) div 4
                 + iday - 2399904),
         if iday < 1 \<or> iday > month_length iy im then 3 else 0))"

primrec digits_upto :: "nat \<Rightarrow> nat \<Rightarrow> string" where
  \<comment> \<open>The decimal digits of \<open>n\<close>, at most \<open>k\<close> of them.\<close>
  "digits_upto 0 n = []"
| "digits_upto (Suc k) n =
     (if n < 10 then [''0123456789'' ! n]
      else digits_upto k (n div 10) @ [''0123456789'' ! (n mod 10)])"

definition digits :: "nat \<Rightarrow> string" where
  "digits n = digits_upto (Suc n) n"

definition str_ref :: "int \<Rightarrow> string" where
  \<comment> \<open>An integer in decimal, as a C++ output stream writes it.\<close>
  "str_ref i = (if i < 0 then CHR ''-'' # digits (nat (- i)) else digits (nat i))"

definition leap_steps :: "(real \<times> real) list" where
  \<comment> \<open>(first UTC day as MJD, TAI-UTC in seconds from that day on).\<close>
  "leap_steps =
     [(41317, 10), (41499, 11), (41683, 12), (42048, 13), (42413, 14), (42778, 15),
      (43144, 16), (43509, 17), (43874, 18), (44239, 19), (44786, 20), (45151, 21),
      (45516, 22), (46247, 23), (47161, 24), (47892, 25), (48257, 26), (48804, 27),
      (49169, 28), (49534, 29), (50083, 30), (50630, 31), (51179, 32), (53736, 33),
      (54832, 34), (56109, 35), (57204, 36), (57754, 37)]"

primrec step_value :: "(real \<times> real) list \<Rightarrow> real \<Rightarrow> real \<Rightarrow> real" where
  "step_value [] t cur = cur"
| "step_value (s # rest) t cur = (if fst s \<le> t then step_value rest t (snd s) else cur)"

definition slaDtt_ref :: "real \<Rightarrow> real" where
  \<comment> \<open>TT-UTC = 32.184 s + (TAI-UTC); a date before the first step takes its offset.\<close>
  "slaDtt_ref t = 32.184 + step_value leap_steps t 10"

definition slaGeoc_ref :: "real \<Rightarrow> real \<Rightarrow> real \<times> real" where
  "slaGeoc_ref p h =
     (let a0 = 6378140; f = 1 / 298.257; b = (1 - f) * (1 - f); au = 149597870000;
          sp = sin p; cp = cos p;
          c = 1 / sqrt (cp * cp + b * sp * sp);
          s = b * c
      in ((a0 * c + h) * cp / au, (a0 * s + h) * sp / au))"

definition slaPvobs_ref :: "real \<Rightarrow> real \<Rightarrow> real \<Rightarrow> vec3 \<times> vec3" where
  "slaPvobs_ref p h stl =
     (let (r, z) = slaGeoc_ref p h;
          s = sin stl; c = cos stl;
          v = 7.292115855306589 / 100000 * r
      in ((r * c, r * s, z), (- v * s, v * c, 0)))"

definition clock_angle :: "real \<Rightarrow> real" where
  \<comment> \<open>Stand-in for the sidereal angle: one turn a day, zero at the start of the day.\<close>
  "clock_angle t = 2 * pi * (t - of_int \<lfloor>t\<rfloor>)"

definition slaEpv_ref :: "real \<Rightarrow> vec3 \<times> vec3 \<times> vec3 \<times> vec3" where
  \<comment> \<open>Stand-in: a circle of one unit, once in 365.25 days; heliocentre = barycentre.\<close>
  "slaEpv_ref t =
     (let n = 2 * pi / 365.25; l = n * (t - 51544.5);
          p = (cos l, sin l, 0); v = (- n * sin l, n * cos l, 0)
      in (p, v, p, v))"

definition slaRefcoq_ref :: "real \<Rightarrow> real \<Rightarrow> real \<Rightarrow> real \<Rightarrow> real \<times> real" where
  \<comment> \<open>Stand-in: about 58 and -0.07 arc seconds at 1013.25 mbar and 285 K.\<close>
  "slaRefcoq_ref tdk pmb rh wl =
     (let k = (pmb / 1013.25) * (285 / tdk)
      in (k * (58 * pi / 648000), k * (- 0.07 * pi / 648000)))"

definition slaI2o_ref ::
  "real \<Rightarrow> real \<Rightarrow> real \<Rightarrow> real \<Rightarrow> real \<Rightarrow> real \<Rightarrow> real \<Rightarrow> real \<Rightarrow> real \<Rightarrow>
   real \<Rightarrow> real \<Rightarrow> real \<Rightarrow> real \<Rightarrow> real \<Rightarrow> real \<times> real \<times> real \<times> real \<times> real" where
  \<comment> \<open>Stand-in: hour angle = clock + east longitude - right ascension; azimuth and zenith
      distance of that direction by spherical trigonometry; declination and right
      ascension unchanged.\<close>
  "slaI2o_ref ri di date dut elong phi hm xp yp tk pmb rh wl tlr =
     (let h = clock_angle (date + dut / 86400) + elong - ri;
          zd = arccos (sin phi * sin di + cos phi * cos di * cos h);
          azm = slaDranrm_ref (atan2 (- cos di * sin h)
                                 (sin di * cos phi - cos di * cos h * sin phi))
      in (azm, zd, h, di, ri))"

definition sla_ref :: extern where
  "sla_ref =
     \<lparr>Constants_AU = 149597870700,
      Subs_str = str_ref,
      slaDtt = slaDtt_ref,
      slaCldj = slaCldj_ref,
      slaGeoc = slaGeoc_ref,
      slaRcc = (\<lambda>tdb0 ut wl u v. 0),
      slaEpv = slaEpv_ref,
      slaGmst = clock_angle,
      slaEqeqx = (\<lambda>date. 0),
      slaPvobs = slaPvobs_ref,
      slaPneqx = (\<lambda>date. ((1, 0, 0), (0, 1, 0), (0, 0, 1))),
      slaDimxv = slaDimxv_ref,
      slaEpj = slaEpj_ref,
      slaPm = slaPm_ref,
      slaDcs2c = slaDcs2c_ref,
      slaI2o = slaI2o_ref,
      slaRefcoq = slaRefcoq_ref,
      slaAirmas = slaAirmas_ref,
      slaPa = slaPa_ref,
      int_unrepresentable = (\<lambda>x. - 2147483648)\<rparr>"

definition sla_ref_elsewhere :: extern where
  \<comment> \<open>A second library: it agrees with \<open>sla_ref\<close> at the atmospheric conditions, polar
      motion and UT1-UTC that \<open>amass\<close> passes, and returns zeros at all others.\<close>
  "sla_ref_elsewhere =
     sla_ref\<lparr>slaI2o := (\<lambda>ri di date dut elong phi hm xp yp tk pmb rh wl tlr.
                  if dut = 0 \<and> xp = 0 \<and> yp = 0 \<and> tk = 285 \<and> pmb = 1013.25 \<and> rh = 0.2
                     \<and> tlr = 0.0065
                  then slaI2o_ref ri di date dut elong phi hm xp yp tk pmb rh wl tlr
                  else (0, 0, 0, 0, 0)),
             slaRefcoq := (\<lambda>tdk pmb rh wl.
                  if tdk = 285 \<and> pmb = 1013.25 \<and> rh = 0.2 then slaRefcoq_ref tdk pmb rh wl
                  else (0, 0))\<rparr>"

subsection \<open>Example inputs\<close>

definition utc2tdb_example :: utc2tdb_args where
  \<comment> \<open>2000 January 1, 0h UTC; a site at 28.76 degrees north, 2396 m; a target at 6.75 h,
      -16.72 degrees; the optional arguments at their initial values.\<close>
  "utc2tdb_example =
     \<lparr>utc = 51544, longitude = 0, latitude = 28.76, height = 2396, ra = 6.75,
      dec = - 16.72, pmra = 0, pmdec = 0, epoch = 2000, parallax = 0, rv = 0\<rparr>"

definition amass_example :: amass_args where
  "amass_example =
     \<lparr>utc = 51544, longitude = 0, latitude = 28.76, height = 2396, ra = 6.75,
      dec = - 16.72, pmra = 0, pmdec = 0, epoch = 2000, parallax = 0, rv = 0,
      wave = 0.55\<rparr>"

definition amass_meridian :: amass_args where
  \<comment> \<open>A target on the celestial equator crossing the meridian of a site at 30 degrees
      north (with \<open>sla_ref\<close>: hour angle 0).\<close>
  "amass_meridian =
     \<lparr>utc = 51544, longitude = 0, latitude = 30, height = 0, ra = 0,
      dec = 0, pmra = 0, pmdec = 0, epoch = 2000, parallax = 0, rv = 0,
      wave = 0.55\<rparr>"

definition amass_west :: amass_args where
  \<comment> \<open>A target on the celestial equator seen from the equator, five hours (75 degrees)
      west of the meridian (with \<open>sla_ref\<close>: hour angle \<open>5 * pi / 12\<close>).\<close>
  "amass_west =
     \<lparr>utc = 51544, longitude = 75, latitude = 0, height = 0, ra = 0,
      dec = 0, pmra = 0, pmdec = 0, epoch = 2000, parallax = 0, rv = 0,
      wave = 0.55\<rparr>"

section \<open>Properties\<close>

subsection \<open>The two operations on accepted and on rejected input\<close>

lemma sla_ref_simps:
  "Constants_AU sla_ref = 149597870700" "Subs_str sla_ref = str_ref"
  "slaDtt sla_ref = slaDtt_ref" "slaCldj sla_ref = slaCldj_ref"
  "slaEpj sla_ref = slaEpj_ref" "slaPm sla_ref = slaPm_ref"
  "slaDcs2c sla_ref = slaDcs2c_ref" "slaI2o sla_ref = slaI2o_ref"
  "slaRefcoq sla_ref = slaRefcoq_ref" "slaAirmas sla_ref = slaAirmas_ref"
  "slaPa sla_ref = slaPa_ref"
  by (simp_all add: sla_ref_def)

lemma sla_amass_accepts:
  assumes "- 360 \<le> longitude a" "longitude a \<le> 360" "- 90 \<le> latitude a" "latitude a \<le> 90"
    "0 \<le> ra a" "ra a \<le> 24" "- 90 \<le> dec a" "dec a \<le> 90" "0 < wave a"
  shows "sla_amass L a =
     Inr \<lparr>airmass = slaAirmas L (observed_zd L a),
          alt = 90 - observed_zd L a / (pi / 180),
          az = fst (observed_place_of L a) / (pi / 180),
          ha = observed_ha L a * (24 / (2 * pi)),
          pa = normalise_pa
                 (slaPa L (observed_ha L a * (24 / (2 * pi))) (snd (target_place L a))
                    (pi / 180 * latitude a) / (pi / 180)),
          delz = (case slaRefcoq L 285 1013.25 0.2 (wave a) of (refa, refb) \<Rightarrow>
                    tan (observed_zd L a)
                    * (refa + refb * tan (observed_zd L a) * tan (observed_zd L a))
                    / (pi / 180))\<rparr>"
  using assms
  by (simp add: sla_amass_def Let_def observed_zd_def observed_ha_def observed_place_of_def
      target_place_def normalise_pa_def Constants_PI_def Constants_TWOPI_def
      split: prod.splits)

lemma sla_utc2tdb_accepts:
  assumes "- 360 \<le> longitude a" "longitude a \<le> 360" "- 90 \<le> latitude a" "latitude a \<le> 90"
    "0 \<le> ra a" "ra a \<le> 24" "- 90 \<le> dec a" "dec a \<le> 90"
  shows "\<exists>r. sla_utc2tdb L a = Inr r \<and>
     tt r = utc a + slaDtt L (utc a) / 86400 \<and>
     btdb r = tdb r + dot (target_vector L a) (observatory_bpos L a (tdb r))
                        / Constants_C / Constants_DAY \<and>
     htdb r = tdb r + dot (target_vector L a) (observatory_hpos L a (tdb r))
                        / Constants_C / Constants_DAY \<and>
     hutc r = utc a + dot (target_vector L a) (observatory_hpos L a (tdb r))
                        / Constants_C / Constants_DAY"
  using assms
  by (simp add: sla_utc2tdb_def Let_def target_vector_def target_place_def observatory_bpos_def
      observatory_hpos_def observatory_offset_def Constants_PI_def Constants_DAY_def
      split: prod.splits)

lemma sla_amass_rejects:
  "isl (sla_amass L a) \<longleftrightarrow>
     longitude a < - 360 \<or> 360 < longitude a \<or> latitude a < - 90 \<or> 90 < latitude a \<or>
     ra a < 0 \<or> 24 < ra a \<or> dec a < - 90 \<or> 90 < dec a \<or> wave a \<le> 0"
  by (simp add: sla_amass_def Let_def split: prod.splits)

lemma sla_utc2tdb_rejects:
  "isl (sla_utc2tdb L a) \<longleftrightarrow>
     longitude a < - 360 \<or> 360 < longitude a \<or> latitude a < - 90 \<or> 90 < latitude a \<or>
     ra a < 0 \<or> 24 < ra a \<or> dec a < - 90 \<or> 90 < dec a"
  by (simp add: sla_utc2tdb_def Let_def split: prod.splits)

lemma sla_amass_run_result: "fst (sla_amass_run L a) = sla_amass L a"
  by (simp add: sla_amass_run_def sla_amass_def Let_def log_call_def split_beta)

lemma sla_utc2tdb_run_result: "fst (sla_utc2tdb_run L a) = sla_utc2tdb L a"
  by (simp add: sla_utc2tdb_run_def sla_utc2tdb_def Let_def log_call_def split_beta)



lemma sla_amass_run_rejected:
  assumes "isl (fst (sla_amass_run L a))"
  shows "\<exists>e. \<forall>M. sla_amass_run M a = (Inl e, [])"
proof -
  let ?c1 = "longitude a < - 360 \<or> longitude a > 360"
  let ?c2 = "latitude a < - 90 \<or> latitude a > 90"
  let ?c3 = "ra a < 0 \<or> ra a > 24"
  let ?c4 = "dec a < - 90 \<or> dec a > 90"
  let ?c5 = "wave a \<le> 0 \<or> (of_bool (dec a > wave a) :: real) > 1000000"
  note unfold = sla_amass_run_def Let_def [where s = "[] :: call list"] if_True if_False
  from assms have "longitude a < - 360 \<or> 360 < longitude a \<or> latitude a < - 90 \<or> 90 < latitude a \<or>
     ra a < 0 \<or> 24 < ra a \<or> dec a < - 90 \<or> 90 < dec a \<or> wave a \<le> 0"
    by (simp only: sla_amass_run_result sla_amass_rejects)
  then consider (lon) "?c1 = True"
    | (lat) "?c1 = False" "?c2 = True"
    | (ra) "?c1 = False" "?c2 = False" "?c3 = True"
    | (dec) "?c1 = False" "?c2 = False" "?c3 = False" "?c4 = True"
    | (wave) "?c1 = False" "?c2 = False" "?c3 = False" "?c4 = False" "?c5 = True"
    by auto
  then show ?thesis
  proof cases
    case lon
    have "\<forall>M. sla_amass_run M a =
        (Inl (ValueError ''sla.amass: longituge out of range -360 to +360''), [])"
      by (simp only: unfold lon) simp
    then show ?thesis ..
  next
    case lat
    have "\<forall>M. sla_amass_run M a =
        (Inl (ValueError ''sla.amass: latitude out of range -90 to +90''), [])"
      by (simp only: unfold lat) simp
    then show ?thesis ..
  next
    case ra
    have "\<forall>M. sla_amass_run M a = (Inl (ValueError ''sla.amass: ra out of range 0 to 24''), [])"
      by (simp only: unfold ra) simp
    then show ?thesis ..
  next
    case dec
    have "\<forall>M. sla_amass_run M a =
        (Inl (ValueError ''sla.amass: declination out of range -90 to +90''), [])"
      by (simp only: unfold dec) simp
    then show ?thesis ..
  next
    case wave
    have "\<forall>M. sla_amass_run M a =
        (Inl (ValueError ''sla.amass: declination out of range -90 to +90''), [])"
      by (simp only: unfold wave) simp
    then show ?thesis ..
  qed
qed


lemma sla_utc2tdb_run_rejected:
  assumes "isl (fst (sla_utc2tdb_run L a))"
  shows "\<exists>e. \<forall>M. sla_utc2tdb_run M a = (Inl e, [])"
proof -
  let ?c1 = "longitude a < - 360 \<or> longitude a > 360"
  let ?c2 = "latitude a < - 90 \<or> latitude a > 90"
  let ?c3 = "ra a < 0 \<or> ra a > 24"
  let ?c4 = "dec a < - 90 \<or> dec a > 90"
  note unfold = sla_utc2tdb_run_def Let_def [where s = "[] :: call list"] if_True if_False
  from assms have "longitude a < - 360 \<or> 360 < longitude a \<or> latitude a < - 90 \<or> 90 < latitude a \<or>
     ra a < 0 \<or> 24 < ra a \<or> dec a < - 90 \<or> 90 < dec a"
    by (simp only: sla_utc2tdb_run_result sla_utc2tdb_rejects)
  then consider (lon) "?c1 = True"
    | (lat) "?c1 = False" "?c2 = True"
    | (ra) "?c1 = False" "?c2 = False" "?c3 = True"
    | (dec) "?c1 = False" "?c2 = False" "?c3 = False" "?c4 = True"
    by auto
  then show ?thesis
  proof cases
    case lon
    have "\<forall>M. sla_utc2tdb_run M a =
        (Inl (ValueError ''sla.utc2tdb: longituge out of range -360 to +360''), [])"
      by (simp only: unfold lon) simp
    then show ?thesis ..
  next
    case lat
    have "\<forall>M. sla_utc2tdb_run M a =
        (Inl (ValueError ''sla.utc2tdb: latitude out of range -90 to +90''), [])"
      by (simp only: unfold lat) simp
    then show ?thesis ..
  next
    case ra
    have "\<forall>M. sla_utc2tdb_run M a =
        (Inl (ValueError ''sla.utc2tdb: ra out of range 0 to 24''), [])"
      by (simp only: unfold ra) simp
    then show ?thesis ..
  next
    case dec
    have "\<forall>M. sla_utc2tdb_run M a =
        (Inl (ValueError ''sla.utc2tdb: declination out of range -90 to +90''), [])"
      by (simp only: unfold dec) simp
    then show ?thesis ..
  qed
qed

lemma sla_utc2tdb_run_calls:
  assumes "- 360 \<le> longitude a" "longitude a \<le> 360" "- 90 \<le> latitude a" "latitude a \<le> 90"
    "0 \<le> ra a" "ra a \<le> 24" "- 90 \<le> dec a" "dec a \<le> 90"
  shows "\<exists>rest. snd (sla_utc2tdb_run L a) =
            Call_slaGeoc (pi / 180 * latitude a) (height a) # Call_slaDtt (utc a) # rest \<and>
          length rest = 11"
  using assms
  by (simp add: sla_utc2tdb_run_def Let_def log_call_def Constants_PI_def split_beta)

lemma sla_amass_run_accepts:
  assumes "- 360 \<le> longitude a" "longitude a \<le> 360" "- 90 \<le> latitude a" "latitude a \<le> 90"
    "0 \<le> ra a" "ra a \<le> 24" "- 90 \<le> dec a" "dec a \<le> 90" "0 < wave a"
    and "target_place L a = (rar, decr)"
    and "slaI2o L rar decr (utc a) 0 (pi / 180 * longitude a) (pi / 180 * latitude a) (height a)
           0 0 285 1013.25 0.2 (wave a) 0.0065 = (azob, zdob, haob, decob, raob)"
    and "slaRefcoq L 285 1013.25 0.2 (wave a) = (refa, refb)"
  shows "sla_amass_run L a =
       (Inr \<lparr>airmass = slaAirmas L zdob,
             alt = 90 - zdob / (pi / 180),
             az = azob / (pi / 180),
             ha = haob * (24 / (2 * pi)),
             pa = normalise_pa
                    (slaPa L (haob * (24 / (2 * pi))) decr (pi / 180 * latitude a) / (pi / 180)),
             delz = tan zdob * (refa + refb * tan zdob * tan zdob) / (pi / 180)\<rparr>,
        [Call_slaEpj (utc a),
         Call_slaPm (pi / 180 * 15 * ra a) (pi / 180 * dec a) (pi / 180 * pmra a / 3600)
           (pi / 180 * pmdec a / 3600) (parallax a) (rv a) (epoch a) (slaEpj L (utc a)),
         Call_slaI2o rar decr (utc a) 0 (pi / 180 * longitude a) (pi / 180 * latitude a)
           (height a) 0 0 285 1013.25 0.2 (wave a) 0.0065,
         Call_slaRefcoq 285 1013.25 0.2 (wave a),
         Call_slaAirmas zdob,
         Call_slaPa (haob * (24 / (2 * pi))) decr (pi / 180 * latitude a)])"
  using assms
  by (simp add: sla_amass_run_def Let_def log_call_def target_place_def normalise_pa_def
      Constants_PI_def Constants_TWOPI_def)


lemma sla_amass_pa_range:
  assumes "- 360 \<le> longitude a" "longitude a \<le> 360" "- 90 \<le> latitude a" "latitude a \<le> 90"
    "0 \<le> ra a" "ra a \<le> 24" "- 90 \<le> dec a" "dec a \<le> 90" "0 < wave a"
    and "\<And>h d phi. - pi \<le> slaPa L h d phi \<and> slaPa L h d phi \<le> pi"
  shows "\<exists>r. sla_amass L a = Inr r \<and> 0 < pa r \<and> pa r \<le> 360"
proof -
  let ?q = "slaPa L (observed_ha L a * (24 / (2 * pi))) (snd (target_place L a))
              (pi / 180 * latitude a)"
  have q: "- pi \<le> ?q" "?q \<le> pi" using assms(10) by simp_all
  have "- 180 \<le> ?q / (pi / 180)" using q(1) by (simp add: field_simps)
  moreover have "?q / (pi / 180) \<le> 180" using q(2) by (simp add: field_simps)
  ultimately have "0 < normalise_pa (?q / (pi / 180)) \<and> normalise_pa (?q / (pi / 180)) \<le> 360"
    by (simp add: normalise_pa_def)
  then show ?thesis by (simp add: sla_amass_accepts [OF assms(1-9)])
qed

lemma sla_amass_pa_argument:
  assumes "- 360 \<le> longitude a" "longitude a \<le> 360" "- 90 \<le> latitude a" "latitude a \<le> 90"
    "0 \<le> ra a" "ra a \<le> 24" "- 90 \<le> dec a" "dec a \<le> 90" "0 < wave a"
  shows "\<exists>r. sla_amass L a = Inr r \<and> ha r = observed_ha L a * 12 / pi \<and>
     pa r = normalise_pa
              (slaPa L (ha r) (snd (target_place L a)) (pi / 180 * latitude a) / (pi / 180))"
  by (simp add: sla_amass_accepts [OF assms])

subsection \<open>The concrete library on the example inputs\<close>

lemma pi_ge_three: "3 \<le> pi"
proof -
  have "sin (pi / 6) \<le> pi / 6" by (intro sin_x_le_x) simp
  then show ?thesis by (simp add: sin_30)
qed

lemma sin_five_negative: "sin (5::real) < 0"
proof -
  have "pi < 5" using pi_less_4 by simp
  moreover have "5 < 2 * pi" using pi_ge_three by simp
  ultimately show ?thesis by (rule sin_lt_zero)
qed

lemma atan2_range: "- pi \<le> atan2 y x \<and> atan2 y x \<le> pi"
proof -
  have "- (pi / 2) < arctan (y / x)" "arctan (y / x) < pi / 2"
    by (rule arctan_lbound, rule arctan_ubound)
  moreover have "x < 0 \<Longrightarrow> 0 \<le> y \<Longrightarrow> arctan (y / x) \<le> 0"
    by (simp add: divide_nonneg_neg)
  moreover have "x < 0 \<Longrightarrow> y < 0 \<Longrightarrow> 0 < arctan (y / x)"
    by (simp add: divide_neg_neg)
  ultimately show ?thesis
    using pi_gt_zero by (auto simp add: atan2_def)
qed

lemma slaPa_ref_range: "- pi \<le> slaPa_ref h d phi \<and> slaPa_ref h d phi \<le> pi"
  using atan2_range pi_gt_zero by (simp add: slaPa_ref_def Let_def less_imp_le)

lemma slaPa_ref_on_meridian: "0 < phi \<Longrightarrow> phi < pi \<Longrightarrow> slaPa_ref 0 0 phi = 0"
  using sin_gt_zero [of phi] by (simp add: slaPa_ref_def atan2_def Let_def)

lemma slaPa_ref_five_hours: "slaPa_ref 5 0 0 = - (pi / 2)"
  using sin_five_negative by (simp add: slaPa_ref_def atan2_def Let_def)

lemma slaPa_ref_five_twelfths: "slaPa_ref (5 * pi / 12) 0 0 = pi / 2"
proof -
  have "0 < sin (5 * pi / 12)" by (intro sin_gt_zero) simp_all
  then show ?thesis by (simp add: slaPa_ref_def atan2_def Let_def)
qed

lemma slaPm_ref_origin: "slaPm_ref 0 0 0 0 0 rv0 ep0 ep1 = (0, 0)"
  by (simp add: slaPm_ref_def slaDcs2c_ref_def slaDcc2s_ref_def atan2_def slaDranrm_ref_def
      Let_def)

lemma target_place_meridian: "target_place sla_ref amass_meridian = (0, 0)"
  by (simp add: target_place_def sla_ref_simps amass_meridian_def slaPm_ref_origin)

lemma target_place_west: "target_place sla_ref amass_west = (0, 0)"
  by (simp add: target_place_def sla_ref_simps amass_west_def slaPm_ref_origin)

lemma observed_ha_meridian: "observed_ha sla_ref amass_meridian = 0"
  unfolding observed_ha_def observed_place_of_def target_place_meridian
  by (simp add: sla_ref_simps slaI2o_ref_def Let_def clock_angle_def amass_meridian_def)

lemma observed_ha_west: "observed_ha sla_ref amass_west = 5 * pi / 12"
  unfolding observed_ha_def observed_place_of_def target_place_west
  by (simp add: sla_ref_simps slaI2o_ref_def Let_def clock_angle_def amass_west_def)

lemma digits_upto_small: "n < 10 \<Longrightarrow> 0 < k \<Longrightarrow> digits_upto k n = [''0123456789'' ! n]"
  by (cases k) simp_all

lemma digits_two:
  assumes "10 \<le> n" "n < 100"
  shows "digits n = [''0123456789'' ! (n div 10), ''0123456789'' ! (n mod 10)]"
proof -
  have "digits n = digits_upto n (n div 10) @ [''0123456789'' ! (n mod 10)]"
    using assms by (simp add: digits_def)
  moreover have "digits_upto n (n div 10) = [''0123456789'' ! (n div 10)]"
    using assms by (intro digits_upto_small) simp_all
  ultimately show ?thesis by simp
qed

lemma str_ref_13: "str_ref 13 = ''13''"
proof -
  have "digits 13 = [''0123456789'' ! (13 div 10), ''0123456789'' ! (13 mod 10)]"
    by (rule digits_two) simp_all
  then show ?thesis by (simp add: str_ref_def)
qed

lemma sla_cldj_ref:
  "sla_cldj sla_ref y m d =
     (if y < - 4711 then Inl (ValueError (''sla.cldj: bad year = '' @ str_ref y))
      else if m < 1 \<or> 12 < m then Inl (ValueError (''sla.cldj: bad month = '' @ str_ref m))
      else if d < 1 \<or> month_length y m < d then
        Inl (ValueError (''sla.cldj: bad day = '' @ str_ref d))
      else Inr (fst (slaCldj_ref y m d)))"
  by (simp add: sla_cldj_def sla_ref_simps slaCldj_ref_def)

lemma sla_cldj_ref_2000: "sla_cldj sla_ref 2000 1 1 = Inr 51544"
  by (simp add: sla_cldj_ref month_length_def slaCldj_ref_def)

lemma slaDcs2c_ref_unit: "dot (slaDcs2c_ref x y) (slaDcs2c_ref x y) = 1"
proof -
  have "(cos x * cos y) * (cos x * cos y) + (sin x * cos y) * (sin x * cos y) + sin y * sin y
        = ((cos x)\<^sup>2 + (sin x)\<^sup>2) * (cos y)\<^sup>2 + (sin y)\<^sup>2"
    by algebra
  also have "\<dots> = 1" by (simp add: add.commute)
  finally show ?thesis by (simp only: dot_def slaDcs2c_ref_def prod.case)
qed

subsection \<open>C1: the wavelength check\<close>

text \<open>
  C1 says that \<open>amass\<close> fails for every wavelength \<open>wave \<le> 0\<close> or \<open>wave > 10^6\<close> with an
  error that names the wavelength and its range. The source checks
  \<open>wave <= 0. || dec > wave > 1000000.\<close>, whose second half is never true, and raises
  the message of the declination check. For every library: with a wavelength of two
  million microns and the other arguments of \<open>amass_example\<close> the operation returns a
  result, and with wavelength 0 the error it raises speaks of the declination.
\<close>

theorem C1_wave_check_defect:
  "\<not> isl (sla_amass L (amass_example\<lparr>wave := 2000000\<rparr>)) \<and>
   sla_amass L (amass_example\<lparr>wave := 0\<rparr>) =
     Inl (ValueError ''sla.amass: declination out of range -90 to +90'')"
  by (simp add: sla_amass_rejects amass_example_def) (simp add: sla_amass_def)

subsection \<open>C4: the right-ascension check\<close>

text \<open>
  C4 as stated (every right ascension outside \<open>[0,24)\<close> is rejected, 24 in particular)
  fails: both operations test \<open>ra < 0. || ra > 24.\<close> and accept \<open>ra = 24\<close>.
\<close>

theorem C4_ra_24_accepted:
  "\<not> isl (sla_utc2tdb sla_ref (utc2tdb_example\<lparr>ra := 24\<rparr>)) \<and>
   \<not> isl (sla_amass sla_ref (amass_example\<lparr>ra := 24\<rparr>))"
  by (simp add: sla_utc2tdb_rejects sla_amass_rejects utc2tdb_example_def amass_example_def)

text \<open>
  C4, amended: both operations fail with a \<open>ValueError\<close> for every right ascension
  \<open>ra < 0\<close> or \<open>ra > 24\<close>, and the error is the one that names \<open>ra\<close> and the range 0 to
  24 when longitude and latitude are in range; every \<open>ra\<close> with \<open>0 \<le> ra \<le> 24\<close>, the
  value 24 included, passes the right-ascension check (the \<open>ra\<close> error is not raised).
\<close>

theorem C4_ra_check:
  "(ra a < 0 \<or> 24 < ra a \<longrightarrow>
      (\<exists>msg. sla_utc2tdb L a = Inl (ValueError msg)) \<and>
      (- 360 \<le> longitude a \<and> longitude a \<le> 360 \<and> - 90 \<le> latitude a \<and> latitude a \<le> 90 \<longrightarrow>
         sla_utc2tdb L a = Inl (ValueError ''sla.utc2tdb: ra out of range 0 to 24''))) \<and>
   (ra b < 0 \<or> 24 < ra b \<longrightarrow>
      (\<exists>msg. sla_amass L b = Inl (ValueError msg)) \<and>
      (- 360 \<le> longitude b \<and> longitude b \<le> 360 \<and> - 90 \<le> latitude b \<and> latitude b \<le> 90 \<longrightarrow>
         sla_amass L b = Inl (ValueError ''sla.amass: ra out of range 0 to 24''))) \<and>
   (0 \<le> ra a \<and> ra a \<le> 24 \<longrightarrow>
      sla_utc2tdb L a \<noteq> Inl (ValueError ''sla.utc2tdb: ra out of range 0 to 24'')) \<and>
   (0 \<le> ra b \<and> ra b \<le> 24 \<longrightarrow>
      sla_amass L b \<noteq> Inl (ValueError ''sla.amass: ra out of range 0 to 24''))"
proof (intro conjI impI)
  assume "ra a < 0 \<or> 24 < ra a"
  then show "\<exists>msg. sla_utc2tdb L a = Inl (ValueError msg)"
    by (auto simp add: sla_utc2tdb_def)
next
  assume "ra a < 0 \<or> 24 < ra a"
    and "- 360 \<le> longitude a \<and> longitude a \<le> 360 \<and> - 90 \<le> latitude a \<and> latitude a \<le> 90"
  then show "sla_utc2tdb L a = Inl (ValueError ''sla.utc2tdb: ra out of range 0 to 24'')"
    by (auto simp add: sla_utc2tdb_def)
next
  assume "ra b < 0 \<or> 24 < ra b"
  then show "\<exists>msg. sla_amass L b = Inl (ValueError msg)"
    by (auto simp add: sla_amass_def)
next
  assume "ra b < 0 \<or> 24 < ra b"
    and "- 360 \<le> longitude b \<and> longitude b \<le> 360 \<and> - 90 \<le> latitude b \<and> latitude b \<le> 90"
  then show "sla_amass L b = Inl (ValueError ''sla.amass: ra out of range 0 to 24'')"
    by (auto simp add: sla_amass_def)
next
  assume "0 \<le> ra a \<and> ra a \<le> 24"
  then show "sla_utc2tdb L a \<noteq> Inl (ValueError ''sla.utc2tdb: ra out of range 0 to 24'')"
    by (auto simp add: sla_utc2tdb_def Let_def split: prod.splits)
next
  assume "0 \<le> ra b \<and> ra b \<le> 24"
  then show "sla_amass L b \<noteq> Inl (ValueError ''sla.amass: ra out of range 0 to 24'')"
    by (auto simp add: sla_amass_def Let_def split: prod.splits)
qed

theorem C4_ra_check_witness:
  "sla_utc2tdb sla_ref (utc2tdb_example\<lparr>ra := 25\<rparr>) =
     Inl (ValueError ''sla.utc2tdb: ra out of range 0 to 24'') \<and>
   sla_amass sla_ref (amass_example\<lparr>ra := - 1\<rparr>) =
     Inl (ValueError ''sla.amass: ra out of range 0 to 24'') \<and>
   sla_utc2tdb sla_ref (utc2tdb_example\<lparr>ra := 24\<rparr>) \<noteq>
     Inl (ValueError ''sla.utc2tdb: ra out of range 0 to 24'') \<and>
   sla_amass sla_ref (amass_example\<lparr>ra := 24\<rparr>) \<noteq>
     Inl (ValueError ''sla.amass: ra out of range 0 to 24'')"
  using C4_ra_check [of "utc2tdb_example\<lparr>ra := 25\<rparr>" sla_ref "amass_example\<lparr>ra := - 1\<rparr>"]
    C4_ra_check [of "utc2tdb_example\<lparr>ra := 24\<rparr>" sla_ref "amass_example\<lparr>ra := 24\<rparr>"]
  by (simp add: utc2tdb_example_def amass_example_def)

subsection \<open>C7: validation comes first\<close>

text \<open>
  C7 as stated (in \<open>utc2tdb\<close> and \<open>amass\<close> every invalid input gets its error and none
  of the transformation chain is performed) fails: the right ascension 24 is outside
  the valid range \<open>[0,24)\<close>, yet both operations accept it, call the library routines
  and return a result.
\<close>

theorem C7_ra_24_runs_chain:
  "\<not> isl (fst (sla_utc2tdb_run sla_ref (utc2tdb_example\<lparr>ra := 24\<rparr>))) \<and>
   snd (sla_utc2tdb_run sla_ref (utc2tdb_example\<lparr>ra := 24\<rparr>)) \<noteq> [] \<and>
   \<not> isl (fst (sla_amass_run sla_ref (amass_example\<lparr>ra := 24\<rparr>))) \<and>
   snd (sla_amass_run sla_ref (amass_example\<lparr>ra := 24\<rparr>)) \<noteq> []"
proof -
  have "\<exists>rest. snd (sla_utc2tdb_run sla_ref (utc2tdb_example\<lparr>ra := 24\<rparr>)) =
          Call_slaGeoc (pi / 180 * latitude (utc2tdb_example\<lparr>ra := 24\<rparr>))
            (height (utc2tdb_example\<lparr>ra := 24\<rparr>))
          # Call_slaDtt (utc (utc2tdb_example\<lparr>ra := 24\<rparr>)) # rest \<and> length rest = 11"
    by (rule sla_utc2tdb_run_calls) (simp_all add: utc2tdb_example_def)
  then have "snd (sla_utc2tdb_run sla_ref (utc2tdb_example\<lparr>ra := 24\<rparr>)) \<noteq> []"
    by auto
  moreover have "\<not> isl (fst (sla_amass_run sla_ref (amass_example\<lparr>ra := 24\<rparr>)))"
    by (simp add: sla_amass_run_result sla_amass_rejects amass_example_def)
  moreover have "snd (sla_amass_run sla_ref (amass_example\<lparr>ra := 24\<rparr>)) \<noteq> []"
    by (simp add: sla_amass_run_def Let_def log_call_def split_beta amass_example_def)
  moreover have "\<not> isl (fst (sla_utc2tdb_run sla_ref (utc2tdb_example\<lparr>ra := 24\<rparr>)))"
    by (simp add: sla_utc2tdb_run_result sla_utc2tdb_rejects utc2tdb_example_def)
  ultimately show ?thesis by simp
qed

text \<open>
  C7, amended: in \<open>utc2tdb\<close> and \<open>amass\<close> the range checks run before the first call
  into the library. Whenever an operation returns an error, its log of library calls is
  empty, and result and log are the same with every library \<open>L'\<close>: none of the
  transformation chain has been performed. The inputs that get an error include every
  input with longitude outside \<open>[-360,360]\<close>, latitude outside \<open>[-90,90]\<close>, right ascension
  outside the closed interval \<open>[0,24]\<close> or declination outside \<open>[-90,90]\<close>, and for
  \<open>amass\<close> every wavelength \<open>wave \<le> 0\<close>. The result of the logged operation is that of
  the operation.
\<close>

theorem C7_validation_first:
  "(isl (fst (sla_utc2tdb_run L a)) \<longrightarrow>
      snd (sla_utc2tdb_run L a) = [] \<and> (\<forall>L'. sla_utc2tdb_run L' a = sla_utc2tdb_run L a)) \<and>
   (longitude a < - 360 \<or> 360 < longitude a \<or> latitude a < - 90 \<or> 90 < latitude a \<or>
    ra a < 0 \<or> 24 < ra a \<or> dec a < - 90 \<or> 90 < dec a \<longrightarrow>
      isl (fst (sla_utc2tdb_run L a))) \<and>
   fst (sla_utc2tdb_run L a) = sla_utc2tdb L a \<and>
   (isl (fst (sla_amass_run L b)) \<longrightarrow>
      snd (sla_amass_run L b) = [] \<and> (\<forall>L'. sla_amass_run L' b = sla_amass_run L b)) \<and>
   (longitude b < - 360 \<or> 360 < longitude b \<or> latitude b < - 90 \<or> 90 < latitude b \<or>
    ra b < 0 \<or> 24 < ra b \<or> dec b < - 90 \<or> 90 < dec b \<or> wave b \<le> 0 \<longrightarrow>
      isl (fst (sla_amass_run L b))) \<and>
   fst (sla_amass_run L b) = sla_amass L b"
proof (intro conjI impI)
  assume "isl (fst (sla_utc2tdb_run L a))"
  then obtain e where e: "\<forall>M. sla_utc2tdb_run M a = (Inl e, [])"
    using sla_utc2tdb_run_rejected by blast
  then show "snd (sla_utc2tdb_run L a) = []" by simp
  from e show "\<forall>L'. sla_utc2tdb_run L' a = sla_utc2tdb_run L a" by simp
next
  assume "longitude a < - 360 \<or> 360 < longitude a \<or> latitude a < - 90 \<or> 90 < latitude a \<or>
    ra a < 0 \<or> 24 < ra a \<or> dec a < - 90 \<or> 90 < dec a"
  then show "isl (fst (sla_utc2tdb_run L a))"
    by (simp only: sla_utc2tdb_run_result sla_utc2tdb_rejects)
next
  show "fst (sla_utc2tdb_run L a) = sla_utc2tdb L a" by (rule sla_utc2tdb_run_result)
next
  assume "isl (fst (sla_amass_run L b))"
  then obtain e where e: "\<forall>M. sla_amass_run M b = (Inl e, [])"
    using sla_amass_run_rejected by blast
  then show "snd (sla_amass_run L b) = []" by simp
  from e show "\<forall>L'. sla_amass_run L' b = sla_amass_run L b" by simp
next
  assume "longitude b < - 360 \<or> 360 < longitude b \<or> latitude b < - 90 \<or> 90 < latitude b \<or>
    ra b < 0 \<or> 24 < ra b \<or> dec b < - 90 \<or> 90 < dec b \<or> wave b \<le> 0"
  then show "isl (fst (sla_amass_run L b))"
    by (simp only: sla_amass_run_result sla_amass_rejects)
next
  show "fst (sla_amass_run L b) = sla_amass L b" by (rule sla_amass_run_result)
qed

theorem C7_validation_first_witness:
  "sla_utc2tdb_run sla_ref (utc2tdb_example\<lparr>latitude := 91\<rparr>) =
     (Inl (ValueError ''sla.utc2tdb: latitude out of range -90 to +90''), []) \<and>
   (\<forall>L'. sla_utc2tdb_run L' (utc2tdb_example\<lparr>latitude := 91\<rparr>) =
          sla_utc2tdb_run sla_ref (utc2tdb_example\<lparr>latitude := 91\<rparr>)) \<and>
   sla_amass_run sla_ref (amass_example\<lparr>longitude := 400\<rparr>) =
     (Inl (ValueError ''sla.amass: longituge out of range -360 to +360''), []) \<and>
   (\<forall>L'. sla_amass_run L' (amass_example\<lparr>longitude := 400\<rparr>) =
          sla_amass_run sla_ref (amass_example\<lparr>longitude := 400\<rparr>))"
proof -
  let ?a = "utc2tdb_example\<lparr>latitude := 91\<rparr>"
  let ?b = "amass_example\<lparr>longitude := 400\<rparr>"
  note t = C7_validation_first [of sla_ref ?a ?b]
  have ha: "longitude ?a < - 360 \<or> 360 < longitude ?a \<or> latitude ?a < - 90 \<or> 90 < latitude ?a \<or>
    ra ?a < 0 \<or> 24 < ra ?a \<or> dec ?a < - 90 \<or> 90 < dec ?a"
    by (simp add: utc2tdb_example_def)
  have hb: "longitude ?b < - 360 \<or> 360 < longitude ?b \<or> latitude ?b < - 90 \<or> 90 < latitude ?b \<or>
    ra ?b < 0 \<or> 24 < ra ?b \<or> dec ?b < - 90 \<or> 90 < dec ?b \<or> wave ?b \<le> 0"
    by (simp add: amass_example_def)
  from t ha have ia: "isl (fst (sla_utc2tdb_run sla_ref ?a))" by blast
  from t hb have ib: "isl (fst (sla_amass_run sla_ref ?b))" by blast
  from t ia have sa: "snd (sla_utc2tdb_run sla_ref ?a) = []"
    and la: "\<forall>L'. sla_utc2tdb_run L' ?a = sla_utc2tdb_run sla_ref ?a" by blast+
  from t ib have sb: "snd (sla_amass_run sla_ref ?b) = []"
    and lb: "\<forall>L'. sla_amass_run L' ?b = sla_amass_run sla_ref ?b" by blast+
  from t have fa: "fst (sla_utc2tdb_run sla_ref ?a) = sla_utc2tdb sla_ref ?a"
    and fb: "fst (sla_amass_run sla_ref ?b) = sla_amass sla_ref ?b" by blast+
  have u: "sla_utc2tdb sla_ref ?a =
      Inl (ValueError ''sla.utc2tdb: latitude out of range -90 to +90'')"
    by (simp add: sla_utc2tdb_def utc2tdb_example_def)
  have v: "sla_amass sla_ref ?b =
      Inl (ValueError ''sla.amass: longituge out of range -360 to +360'')"
    by (simp add: sla_amass_def amass_example_def)
  have "sla_utc2tdb_run sla_ref ?a =
      (Inl (ValueError ''sla.utc2tdb: latitude out of range -90 to +90''), [])"
    using sa fa u by (simp add: prod_eq_iff)
  moreover have "sla_amass_run sla_ref ?b =
      (Inl (ValueError ''sla.amass: longituge out of range -360 to +360''), [])"
    using sb fb v by (simp add: prod_eq_iff)
  ultimately show ?thesis using la lb by blast
qed

subsection \<open>C5: the light-time corrections\<close>

text \<open>
  C5: in \<open>utc2tdb\<close> the light-time corrections are (target vector) . (position of the
  observatory relative to the heliocentre or the barycentre) / (speed of light), and
  they are added to the arrival time: \<open>btdb = tdb + bcorr\<close>, \<open>htdb = tdb + hcorr\<close>,
  \<open>hutc = utc + hcorr\<close>. The times are in days, so each correction is the light time
  in seconds divided by the 86400 seconds of a day. The operation returns such a
  result on every input that passes its checks.
\<close>

theorem C5_light_time:
  assumes "- 360 \<le> longitude a" "longitude a \<le> 360" "- 90 \<le> latitude a" "latitude a \<le> 90"
    "0 \<le> ra a" "ra a \<le> 24" "- 90 \<le> dec a" "dec a \<le> 90"
  shows "\<exists>r hcorr bcorr. sla_utc2tdb L a = Inr r \<and>
     hcorr * 86400 = dot (target_vector L a) (observatory_hpos L a (tdb r)) / Constants_C \<and>
     bcorr * 86400 = dot (target_vector L a) (observatory_bpos L a (tdb r)) / Constants_C \<and>
     btdb r = tdb r + bcorr \<and> htdb r = tdb r + hcorr \<and> hutc r = utc a + hcorr"
proof -
  let ?h = "\<lambda>r. dot (target_vector L a) (observatory_hpos L a (tdb r)) / Constants_C / Constants_DAY"
  let ?b = "\<lambda>r. dot (target_vector L a) (observatory_bpos L a (tdb r)) / Constants_C / Constants_DAY"
  from sla_utc2tdb_accepts [OF assms, of L] obtain r where r: "sla_utc2tdb L a = Inr r"
    "btdb r = tdb r + ?b r" "htdb r = tdb r + ?h r" "hutc r = utc a + ?h r"
    by blast
  have "?h r * 86400 = dot (target_vector L a) (observatory_hpos L a (tdb r)) / Constants_C"
    "?b r * 86400 = dot (target_vector L a) (observatory_bpos L a (tdb r)) / Constants_C"
    by (simp_all add: Constants_DAY_def)
  with r show ?thesis by blast
qed

theorem C5_light_time_witness:
  "\<exists>r hcorr bcorr. sla_utc2tdb sla_ref utc2tdb_example = Inr r \<and>
     hcorr * 86400 = dot (target_vector sla_ref utc2tdb_example)
                       (observatory_hpos sla_ref utc2tdb_example (tdb r)) / Constants_C \<and>
     bcorr * 86400 = dot (target_vector sla_ref utc2tdb_example)
                       (observatory_bpos sla_ref utc2tdb_example (tdb r)) / Constants_C \<and>
     btdb r = tdb r + bcorr \<and> htdb r = tdb r + hcorr \<and>
     hutc r = utc utc2tdb_example + hcorr"
  by (rule C5_light_time) (simp_all add: utc2tdb_example_def)

subsection \<open>C8: the refraction displacement\<close>

text \<open>
  C8: the refraction displacement that \<open>amass\<close> reports is
  \<open>tan z * (refa + refb * tan\<^sup>2 z)\<close> converted from radians to degrees, where \<open>z\<close> is the
  observed zenith distance and \<open>(refa, refb)\<close> are the refraction coefficients that
  \<open>slaRefcoq\<close> computes from the temperature, pressure and humidity of the source and
  from the wavelength. The operation returns such a result on every input that passes
  its checks.
\<close>

theorem C8_refraction_displacement:
  assumes "- 360 \<le> longitude a" "longitude a \<le> 360" "- 90 \<le> latitude a" "latitude a \<le> 90"
    "0 \<le> ra a" "ra a \<le> 24" "- 90 \<le> dec a" "dec a \<le> 90" "0 < wave a"
  shows "\<exists>r refa refb. sla_amass L a = Inr r \<and>
     slaRefcoq L 285 1013.25 0.2 (wave a) = (refa, refb) \<and>
     delz r = tan (observed_zd L a) * (refa + refb * (tan (observed_zd L a))\<^sup>2) * (180 / pi)"
proof -
  obtain refa refb where c: "slaRefcoq L 285 1013.25 0.2 (wave a) = (refa, refb)"
    by (cases "slaRefcoq L 285 1013.25 0.2 (wave a)")
  have "sla_amass L a = Inr
     \<lparr>airmass = slaAirmas L (observed_zd L a),
      alt = 90 - observed_zd L a / (pi / 180),
      az = fst (observed_place_of L a) / (pi / 180),
      ha = observed_ha L a * (24 / (2 * pi)),
      pa = normalise_pa
             (slaPa L (observed_ha L a * (24 / (2 * pi))) (snd (target_place L a))
                (pi / 180 * latitude a) / (pi / 180)),
      delz = tan (observed_zd L a)
             * (refa + refb * tan (observed_zd L a) * tan (observed_zd L a)) / (pi / 180)\<rparr>"
    by (simp only: sla_amass_accepts [OF assms] c prod.case)
  then show ?thesis using c
    by (simp add: power2_eq_square algebra_simps add_divide_distrib)
qed

theorem C8_refraction_displacement_witness:
  "\<exists>r refa refb. sla_amass sla_ref amass_example = Inr r \<and>
     slaRefcoq sla_ref 285 1013.25 0.2 (wave amass_example) = (refa, refb) \<and>
     delz r = tan (observed_zd sla_ref amass_example)
              * (refa + refb * (tan (observed_zd sla_ref amass_example))\<^sup>2) * (180 / pi)"
  by (rule C8_refraction_displacement) (simp_all add: amass_example_def)

subsection \<open>C9: terrestrial time is not before UTC\<close>

text \<open>
  C9: for every valid input on which the offset TT-UTC, \<open>dtt(utc)\<close>, is not negative,
  \<open>utc2tdb\<close> returns \<open>tt = utc + dtt(utc) / 86400\<close> (the offset in seconds converted to
  days), and \<open>tt \<ge> utc\<close>. Valid is as the spec has it, with \<open>ra\<close> in \<open>[0,24)\<close>.
\<close>

theorem C9_tt_after_utc:
  assumes "- 360 \<le> longitude a" "longitude a \<le> 360" "- 90 \<le> latitude a" "latitude a \<le> 90"
    "0 \<le> ra a" "ra a < 24" "- 90 \<le> dec a" "dec a \<le> 90"
    and "0 \<le> sla_dtt L (utc a)"
  shows "\<exists>r. sla_utc2tdb L a = Inr r \<and> tt r = utc a + sla_dtt L (utc a) / 86400 \<and>
     utc a \<le> tt r"
proof -
  have "ra a \<le> 24" using assms(6) by simp
  from sla_utc2tdb_accepts [OF assms(1-5) this assms(7,8), of L] obtain r
    where "sla_utc2tdb L a = Inr r" "tt r = utc a + slaDtt L (utc a) / 86400"
    by blast
  then show ?thesis using assms(9) by (auto simp add: sla_dtt_def)
qed

theorem C9_tt_after_utc_witness:
  "sla_dtt sla_ref (utc utc2tdb_example) = 64.184 \<and>
   (\<exists>r. sla_utc2tdb sla_ref utc2tdb_example = Inr r \<and> tt r = 51544 + 64.184 / 86400 \<and>
        utc utc2tdb_example \<le> tt r)"
  using C9_tt_after_utc [of utc2tdb_example sla_ref]
  by (simp add: utc2tdb_example_def sla_dtt_def sla_ref_simps slaDtt_ref_def leap_steps_def)

subsection \<open>C10: fixed atmosphere, polar motion and UT1-UTC\<close>

text \<open>
  C10: \<open>amass\<close> always evaluates the observed place and the refraction at temperature
  285 K, pressure 1013.25 mbar, relative humidity 0.2 and lapse rate 0.0065 K/m, with
  UT1-UTC and both polar-motion components zero, and no argument can change them. The
  arguments are the twelve fields of \<open>amass_args\<close>, none of which is one of these
  quantities. On every input that passes the checks the operation calls, in this order,
  \<open>slaEpj\<close>, \<open>slaPm\<close>, \<open>slaI2o\<close> at exactly these conditions, \<open>slaRefcoq\<close> at
  this temperature, pressure and humidity, \<open>slaAirmas\<close> and \<open>slaPa\<close>, and nothing else;
  the result is built from what \<open>slaI2o\<close> and \<open>slaRefcoq\<close> return there. Hence
  whatever a second library \<open>L'\<close> does at any other conditions, if it agrees with \<open>L\<close> at
  these (and on the four other routines) the operation returns the same; and the result is
  a function of the twelve arguments.
\<close>

theorem C10_fixed_conditions:
  assumes "- 360 \<le> longitude a" "longitude a \<le> 360" "- 90 \<le> latitude a" "latitude a \<le> 90"
    "0 \<le> ra a" "ra a \<le> 24" "- 90 \<le> dec a" "dec a \<le> 90" "0 < wave a"
  shows "\<exists>rar decr azob zdob haob decob raob refa refb.
     target_place L a = (rar, decr) \<and>
     slaI2o L rar decr (utc a) 0 (pi / 180 * longitude a) (pi / 180 * latitude a) (height a)
       0 0 285 1013.25 0.2 (wave a) 0.0065 = (azob, zdob, haob, decob, raob) \<and>
     slaRefcoq L 285 1013.25 0.2 (wave a) = (refa, refb) \<and>
     sla_amass_run L a =
       (Inr \<lparr>airmass = slaAirmas L zdob,
             alt = 90 - zdob / (pi / 180),
             az = azob / (pi / 180),
             ha = haob * (24 / (2 * pi)),
             pa = normalise_pa
                    (slaPa L (haob * (24 / (2 * pi))) decr (pi / 180 * latitude a) / (pi / 180)),
             delz = tan zdob * (refa + refb * tan zdob * tan zdob) / (pi / 180)\<rparr>,
        [Call_slaEpj (utc a),
         Call_slaPm (pi / 180 * 15 * ra a) (pi / 180 * dec a) (pi / 180 * pmra a / 3600)
           (pi / 180 * pmdec a / 3600) (parallax a) (rv a) (epoch a) (slaEpj L (utc a)),
         Call_slaI2o rar decr (utc a) 0 (pi / 180 * longitude a) (pi / 180 * latitude a)
           (height a) 0 0 285 1013.25 0.2 (wave a) 0.0065,
         Call_slaRefcoq 285 1013.25 0.2 (wave a),
         Call_slaAirmas zdob,
         Call_slaPa (haob * (24 / (2 * pi))) decr (pi / 180 * latitude a)]) \<and>
     sla_amass L a = fst (sla_amass_run L a) \<and>
     (\<forall>L'. (\<forall>ri di date elong phi hm wl.
               slaI2o L' ri di date 0 elong phi hm 0 0 285 1013.25 0.2 wl 0.0065 =
               slaI2o L ri di date 0 elong phi hm 0 0 285 1013.25 0.2 wl 0.0065) \<and>
           (\<forall>wl. slaRefcoq L' 285 1013.25 0.2 wl = slaRefcoq L 285 1013.25 0.2 wl) \<and>
           slaEpj L' = slaEpj L \<and> slaPm L' = slaPm L \<and>
           slaAirmas L' = slaAirmas L \<and> slaPa L' = slaPa L \<longrightarrow>
           sla_amass_run L' a = sla_amass_run L a)"
proof -
  obtain rar decr where p: "target_place L a = (rar, decr)"
    by (cases "target_place L a")
  obtain azob zdob haob decob raob where
    o: "slaI2o L rar decr (utc a) 0 (pi / 180 * longitude a) (pi / 180 * latitude a) (height a)
       0 0 285 1013.25 0.2 (wave a) 0.0065 = (azob, zdob, haob, decob, raob)"
    by (metis prod_cases5)
  obtain refa refb where c: "slaRefcoq L 285 1013.25 0.2 (wave a) = (refa, refb)"
    by (cases "slaRefcoq L 285 1013.25 0.2 (wave a)")
  note run = sla_amass_run_accepts [OF assms p o c]
  have same: "sla_amass_run L' a = sla_amass_run L a"
    if "\<forall>ri di date elong phi hm wl.
               slaI2o L' ri di date 0 elong phi hm 0 0 285 1013.25 0.2 wl 0.0065 =
               slaI2o L ri di date 0 elong phi hm 0 0 285 1013.25 0.2 wl 0.0065"
      and "\<forall>wl. slaRefcoq L' 285 1013.25 0.2 wl = slaRefcoq L 285 1013.25 0.2 wl"
      and "slaEpj L' = slaEpj L" and "slaPm L' = slaPm L"
      and "slaAirmas L' = slaAirmas L" and "slaPa L' = slaPa L" for L'
    using that by (simp add: sla_amass_run_def Let_def)
  have "sla_amass L a = fst (sla_amass_run L a)"
    by (simp only: sla_amass_run_result)
  with p o c run same show ?thesis by blast
qed


theorem C10_fixed_conditions_witness:
  "sla_amass_run sla_ref_elsewhere amass_example = sla_amass_run sla_ref amass_example \<and>
   slaRefcoq sla_ref_elsewhere 300 1000 0.5 1 \<noteq> slaRefcoq sla_ref 300 1000 0.5 1 \<and>
   (\<exists>rar decr zdob haob.
      snd (sla_amass_run sla_ref amass_example) =
        [Call_slaEpj 51544,
         Call_slaPm (pi / 180 * 15 * 6.75) (pi / 180 * (- 16.72)) 0 0 0 0 2000
           (slaEpj sla_ref 51544),
         Call_slaI2o rar decr 51544 0 0 (pi / 180 * 28.76) 2396 0 0 285 1013.25 0.2 0.55 0.0065,
         Call_slaRefcoq 285 1013.25 0.2 0.55,
         Call_slaAirmas zdob,
         Call_slaPa (haob * (24 / (2 * pi))) decr (pi / 180 * 28.76)])"
proof -
  have "\<exists>rar decr azob zdob haob decob raob refa refb.
     target_place sla_ref amass_example = (rar, decr) \<and>
     slaI2o sla_ref rar decr (utc amass_example) 0 (pi / 180 * longitude amass_example)
       (pi / 180 * latitude amass_example) (height amass_example)
       0 0 285 1013.25 0.2 (wave amass_example) 0.0065 = (azob, zdob, haob, decob, raob) \<and>
     slaRefcoq sla_ref 285 1013.25 0.2 (wave amass_example) = (refa, refb) \<and>
     sla_amass_run sla_ref amass_example =
       (Inr \<lparr>airmass = slaAirmas sla_ref zdob,
             alt = 90 - zdob / (pi / 180),
             az = azob / (pi / 180),
             ha = haob * (24 / (2 * pi)),
             pa = normalise_pa
                    (slaPa sla_ref (haob * (24 / (2 * pi))) decr
                       (pi / 180 * latitude amass_example) / (pi / 180)),
             delz = tan zdob * (refa + refb * tan zdob * tan zdob) / (pi / 180)\<rparr>,
        [Call_slaEpj (utc amass_example),
         Call_slaPm (pi / 180 * 15 * ra amass_example) (pi / 180 * dec amass_example)
           (pi / 180 * pmra amass_example / 3600) (pi / 180 * pmdec amass_example / 3600)
           (parallax amass_example) (rv amass_example) (epoch amass_example)
           (slaEpj sla_ref (utc amass_example)),
         Call_slaI2o rar decr (utc amass_example) 0 (pi / 180 * longitude amass_example)
           (pi / 180 * latitude amass_example) (height amass_example)
           0 0 285 1013.25 0.2 (wave amass_example) 0.0065,
         Call_slaRefcoq 285 1013.25 0.2 (wave amass_example),
         Call_slaAirmas zdob,
         Call_slaPa (haob * (24 / (2 * pi))) decr (pi / 180 * latitude amass_example)]) \<and>
     sla_amass sla_ref amass_example = fst (sla_amass_run sla_ref amass_example) \<and>
     (\<forall>L'. (\<forall>ri di date elong phi hm wl.
               slaI2o L' ri di date 0 elong phi hm 0 0 285 1013.25 0.2 wl 0.0065 =
               slaI2o sla_ref ri di date 0 elong phi hm 0 0 285 1013.25 0.2 wl 0.0065) \<and>
           (\<forall>wl. slaRefcoq L' 285 1013.25 0.2 wl = slaRefcoq sla_ref 285 1013.25 0.2 wl) \<and>
           slaEpj L' = slaEpj sla_ref \<and> slaPm L' = slaPm sla_ref \<and>
           slaAirmas L' = slaAirmas sla_ref \<and> slaPa L' = slaPa sla_ref \<longrightarrow>
           sla_amass_run L' amass_example = sla_amass_run sla_ref amass_example)"
    by (rule C10_fixed_conditions) (simp_all add: amass_example_def)
  then obtain rar decr zdob haob r where
    tr: "sla_amass_run sla_ref amass_example =
       (r,
        [Call_slaEpj (utc amass_example),
         Call_slaPm (pi / 180 * 15 * ra amass_example) (pi / 180 * dec amass_example)
           (pi / 180 * pmra amass_example / 3600) (pi / 180 * pmdec amass_example / 3600)
           (parallax amass_example) (rv amass_example) (epoch amass_example)
           (slaEpj sla_ref (utc amass_example)),
         Call_slaI2o rar decr (utc amass_example) 0 (pi / 180 * longitude amass_example)
           (pi / 180 * latitude amass_example) (height amass_example)
           0 0 285 1013.25 0.2 (wave amass_example) 0.0065,
         Call_slaRefcoq 285 1013.25 0.2 (wave amass_example),
         Call_slaAirmas zdob,
         Call_slaPa (haob * (24 / (2 * pi))) decr (pi / 180 * latitude amass_example)])"
    and same: "\<forall>L'. (\<forall>ri di date elong phi hm wl.
               slaI2o L' ri di date 0 elong phi hm 0 0 285 1013.25 0.2 wl 0.0065 =
               slaI2o sla_ref ri di date 0 elong phi hm 0 0 285 1013.25 0.2 wl 0.0065) \<and>
           (\<forall>wl. slaRefcoq L' 285 1013.25 0.2 wl = slaRefcoq sla_ref 285 1013.25 0.2 wl) \<and>
           slaEpj L' = slaEpj sla_ref \<and> slaPm L' = slaPm sla_ref \<and>
           slaAirmas L' = slaAirmas sla_ref \<and> slaPa L' = slaPa sla_ref \<longrightarrow>
           sla_amass_run L' amass_example = sla_amass_run sla_ref amass_example"
    by blast
  have "sla_amass_run sla_ref_elsewhere amass_example = sla_amass_run sla_ref amass_example"
    by (rule same [rule_format]) (simp add: sla_ref_elsewhere_def sla_ref_simps)
  moreover
  have "slaRefcoq sla_ref_elsewhere 300 1000 0.5 1 \<noteq> slaRefcoq sla_ref 300 1000 0.5 1"
    by (simp add: sla_ref_elsewhere_def sla_ref_simps slaRefcoq_ref_def Let_def)
  moreover have "\<exists>rar decr zdob haob.
      snd (sla_amass_run sla_ref amass_example) =
        [Call_slaEpj 51544,
         Call_slaPm (pi / 180 * 15 * 6.75) (pi / 180 * (- 16.72)) 0 0 0 0 2000
           (slaEpj sla_ref 51544),
         Call_slaI2o rar decr 51544 0 0 (pi / 180 * 28.76) 2396 0 0 285 1013.25 0.2 0.55 0.0065,
         Call_slaRefcoq 285 1013.25 0.2 0.55,
         Call_slaAirmas zdob,
         Call_slaPa (haob * (24 / (2 * pi))) decr (pi / 180 * 28.76)]"
    using tr by (simp add: amass_example_def)
  ultimately show ?thesis by blast
qed

subsection \<open>C6: the three calendar errors\<close>

text \<open>
  C6: \<open>cldj\<close> fails with three separately reported errors, bad year, bad month (not
  1 to 12) and bad day (not a day of that month in that year), each naming the field
  that is wrong; in particular (2023, 13, 1) fails with the bad-month error.
  For every library the status 1, 2 or 3 of \<open>slaCldj\<close> becomes the error whose message
  names the year, the month or the day and carries its value, and no two of the three
  messages can be equal. With the calendar routine of \<open>sla_ref\<close> a year before -4711 is
  a bad year, otherwise a month outside 1 to 12 is a bad month, otherwise a day outside
  the month is a bad day, otherwise the operation returns; and (2023, 13, 1) gives
  \<open>sla.cldj: bad month = 13\<close>.
\<close>

theorem C6_cldj_errors:
  "(snd (slaCldj L y m d) = 1 \<longrightarrow>
      sla_cldj L y m d = Inl (ValueError (''sla.cldj: bad year = '' @ Subs_str L y))) \<and>
   (snd (slaCldj L y m d) = 2 \<longrightarrow>
      sla_cldj L y m d = Inl (ValueError (''sla.cldj: bad month = '' @ Subs_str L m))) \<and>
   (snd (slaCldj L y m d) = 3 \<longrightarrow>
      sla_cldj L y m d = Inl (ValueError (''sla.cldj: bad day = '' @ Subs_str L d))) \<and>
   ''sla.cldj: bad year = '' @ s1 \<noteq> ''sla.cldj: bad month = '' @ s2 \<and>
   ''sla.cldj: bad year = '' @ s1 \<noteq> ''sla.cldj: bad day = '' @ s3 \<and>
   ''sla.cldj: bad month = '' @ s2 \<noteq> ''sla.cldj: bad day = '' @ s3 \<and>
   (y < - 4711 \<longrightarrow>
      sla_cldj sla_ref y m d = Inl (ValueError (''sla.cldj: bad year = '' @ str_ref y))) \<and>
   (- 4711 \<le> y \<and> (m < 1 \<or> 12 < m) \<longrightarrow>
      sla_cldj sla_ref y m d = Inl (ValueError (''sla.cldj: bad month = '' @ str_ref m))) \<and>
   (- 4711 \<le> y \<and> 1 \<le> m \<and> m \<le> 12 \<and> (d < 1 \<or> month_length y m < d) \<longrightarrow>
      sla_cldj sla_ref y m d = Inl (ValueError (''sla.cldj: bad day = '' @ str_ref d))) \<and>
   (- 4711 \<le> y \<and> 1 \<le> m \<and> m \<le> 12 \<and> 1 \<le> d \<and> d \<le> month_length y m \<longrightarrow>
      \<not> isl (sla_cldj sla_ref y m d)) \<and>
   sla_cldj sla_ref 2023 13 1 = Inl (ValueError ''sla.cldj: bad month = 13'')"
proof (intro conjI impI)
  assume "snd (slaCldj L y m d) = 1"
  then show "sla_cldj L y m d = Inl (ValueError (''sla.cldj: bad year = '' @ Subs_str L y))"
    by (cases "slaCldj L y m d") (simp add: sla_cldj_def)
next
  assume "snd (slaCldj L y m d) = 2"
  then show "sla_cldj L y m d = Inl (ValueError (''sla.cldj: bad month = '' @ Subs_str L m))"
    by (cases "slaCldj L y m d") (simp add: sla_cldj_def)
next
  assume "snd (slaCldj L y m d) = 3"
  then show "sla_cldj L y m d = Inl (ValueError (''sla.cldj: bad day = '' @ Subs_str L d))"
    by (cases "slaCldj L y m d") (simp add: sla_cldj_def)
next
  show "''sla.cldj: bad year = '' @ s1 \<noteq> ''sla.cldj: bad month = '' @ s2" by simp
  show "''sla.cldj: bad year = '' @ s1 \<noteq> ''sla.cldj: bad day = '' @ s3" by simp
  show "''sla.cldj: bad month = '' @ s2 \<noteq> ''sla.cldj: bad day = '' @ s3" by simp
next
  assume "y < - 4711"
  then show "sla_cldj sla_ref y m d = Inl (ValueError (''sla.cldj: bad year = '' @ str_ref y))"
    by (simp add: sla_cldj_ref)
next
  assume "- 4711 \<le> y \<and> (m < 1 \<or> 12 < m)"
  then show "sla_cldj sla_ref y m d = Inl (ValueError (''sla.cldj: bad month = '' @ str_ref m))"
    by (auto simp add: sla_cldj_ref)
next
  assume "- 4711 \<le> y \<and> 1 \<le> m \<and> m \<le> 12 \<and> (d < 1 \<or> month_length y m < d)"
  then show "sla_cldj sla_ref y m d = Inl (ValueError (''sla.cldj: bad day = '' @ str_ref d))"
    by (auto simp add: sla_cldj_ref)
next
  assume "- 4711 \<le> y \<and> 1 \<le> m \<and> m \<le> 12 \<and> 1 \<le> d \<and> d \<le> month_length y m"
  then show "\<not> isl (sla_cldj sla_ref y m d)"
    by (auto simp add: sla_cldj_ref)
next
  show "sla_cldj sla_ref 2023 13 1 = Inl (ValueError ''sla.cldj: bad month = 13'')"
    by (simp add: sla_cldj_ref str_ref_13)
qed

theorem C6_cldj_errors_witness:
  "sla_cldj sla_ref (- 5000) 1 1 =
     Inl (ValueError (''sla.cldj: bad year = '' @ str_ref (- 5000))) \<and>
   sla_cldj sla_ref 2023 13 1 = Inl (ValueError ''sla.cldj: bad month = 13'') \<and>
   sla_cldj sla_ref 1900 2 30 = Inl (ValueError (''sla.cldj: bad day = '' @ str_ref 30)) \<and>
   \<not> isl (sla_cldj sla_ref 2000 1 1) \<and>
   snd (slaCldj sla_ref 1900 2 30) = 3"
  using C6_cldj_errors [of sla_ref "- 5000" 1 1] C6_cldj_errors [of sla_ref 2023 13 1]
    C6_cldj_errors [of sla_ref 1900 2 30] C6_cldj_errors [of sla_ref 2000 1 1]
  by (simp add: month_length_def sla_ref_simps slaCldj_ref_def)

subsection \<open>C2: the range of the parallactic angle\<close>

text \<open>
  C2 says that the parallactic angle returned by \<open>amass\<close> lies in \<open>[0,360)\<close> and is never
  360. The source keeps a positive angle and adds 360 to any other
  (\<open>paob > 0. ? paob : 360.+paob\<close>), so that the angle 0 becomes 360: the returned
  value lies in \<open>(0,360]\<close> (lemma \<open>sla_amass_pa_range\<close>). For a target on the meridian
  south of the zenith the parallactic angle is 0; with \<open>sla_ref\<close> on \<open>amass_meridian\<close>
  the operation returns 360.
\<close>

theorem C2_pa_360_returned:
  "\<exists>r. sla_amass sla_ref amass_meridian = Inr r \<and> pa r = 360"
proof -
  have "sla_amass sla_ref amass_meridian = Inr
     \<lparr>airmass = slaAirmas sla_ref (observed_zd sla_ref amass_meridian),
      alt = 90 - observed_zd sla_ref amass_meridian / (pi / 180),
      az = fst (observed_place_of sla_ref amass_meridian) / (pi / 180),
      ha = observed_ha sla_ref amass_meridian * (24 / (2 * pi)),
      pa = normalise_pa
             (slaPa sla_ref (observed_ha sla_ref amass_meridian * (24 / (2 * pi)))
                (snd (target_place sla_ref amass_meridian))
                (pi / 180 * latitude amass_meridian) / (pi / 180)),
      delz = (case slaRefcoq sla_ref 285 1013.25 0.2 (wave amass_meridian) of
                (refa, refb) \<Rightarrow>
                  tan (observed_zd sla_ref amass_meridian)
                  * (refa + refb * tan (observed_zd sla_ref amass_meridian)
                              * tan (observed_zd sla_ref amass_meridian))
                  / (pi / 180))\<rparr>"
    by (rule sla_amass_accepts) (simp_all add: amass_meridian_def)
  moreover have "slaPa_ref 0 0 (pi / 180 * latitude amass_meridian) = 0"
    by (rule slaPa_ref_on_meridian) (simp_all add: amass_meridian_def)
  ultimately show ?thesis
    by (simp add: observed_ha_meridian target_place_meridian sla_ref_simps normalise_pa_def)
qed

subsection \<open>C3: the hour angle handed to the parallactic-angle routine\<close>

text \<open>
  C3 says that the returned parallactic angle is \<open>slaPa\<close> at the observed hour angle,
  the target declination and the site latitude, each in the unit the routine expects
  (radians), converted to degrees. The source multiplies \<open>haob\<close> by \<open>24 / TWOPI\<close>
  (line 241) before it calls \<open>slaPa(haob, decr, latr)\<close> (line 247), so the routine
  receives the hour angle in hours, for every library (lemma \<open>sla_amass_pa_argument\<close>).
  With \<open>sla_ref\<close> on \<open>amass_west\<close> the observed hour
  angle is \<open>5 * pi / 12\<close> radians, that is 5 hours; the operation returns the
  parallactic angle 270, where the routine at \<open>5 * pi / 12\<close> radians gives 90.
\<close>

theorem C3_pa_from_hours:
  "\<exists>r. sla_amass sla_ref amass_west = Inr r \<and> ha r = 5 \<and> pa r = 270 \<and>
       observed_ha sla_ref amass_west = 5 * pi / 12 \<and>
       normalise_pa
         (slaPa sla_ref (observed_ha sla_ref amass_west)
            (snd (target_place sla_ref amass_west)) (pi / 180 * latitude amass_west)
          / (pi / 180)) = 90"
proof -
  have "sla_amass sla_ref amass_west = Inr
     \<lparr>airmass = slaAirmas sla_ref (observed_zd sla_ref amass_west),
      alt = 90 - observed_zd sla_ref amass_west / (pi / 180),
      az = fst (observed_place_of sla_ref amass_west) / (pi / 180),
      ha = observed_ha sla_ref amass_west * (24 / (2 * pi)),
      pa = normalise_pa
             (slaPa sla_ref (observed_ha sla_ref amass_west * (24 / (2 * pi)))
                (snd (target_place sla_ref amass_west))
                (pi / 180 * latitude amass_west) / (pi / 180)),
      delz = (case slaRefcoq sla_ref 285 1013.25 0.2 (wave amass_west) of
                (refa, refb) \<Rightarrow>
                  tan (observed_zd sla_ref amass_west)
                  * (refa + refb * tan (observed_zd sla_ref amass_west)
                              * tan (observed_zd sla_ref amass_west))
                  / (pi / 180))\<rparr>"
    by (rule sla_amass_accepts) (simp_all add: amass_west_def)
  moreover have "latitude amass_west = 0"
    by (simp add: amass_west_def)
  ultimately show ?thesis
    by (simp add: observed_ha_west target_place_west sla_ref_simps normalise_pa_def
        slaPa_ref_five_hours slaPa_ref_five_twelfths)
qed

end
